theory Spec2Isabelle
  imports Main "HOL-Library.AList" "HOL-Library.Char_ord" "HOL-Library.List_Lexorder"
begin

section \<open>The GovInfo mirror of \<^verbatim>\<open>core/tasks/govinfo.py\<close>\<close>

text \<open>
  A shallow embedding of the sitemap walker, the container mirror and the extractor.
  Python strings are \<^typ>\<open>string\<close>; a character stands for a code point below 256.
  \<^verbatim>\<open>None\<close> is \<^term>\<open>None\<close>. An exception is the left injection of a sum; the state a
  raising function leaves behind is returned beside it. Lastmod tokens are compared as
  Python compares strings: code point by code point, a proper prefix being smaller.
\<close>

subsection \<open>Strings and paths\<close>

definition is_space :: "char \<Rightarrow> bool" where
  \<comment> \<open>the characters \<^verbatim>\<open>str.strip()\<close> removes\<close>
  "is_space c =
     (let n = (of_char c :: nat)
      in (9 \<le> n \<and> n \<le> 13) \<or> (28 \<le> n \<and> n \<le> 32) \<or> n = 133 \<or> n = 160)"

definition strip :: "string \<Rightarrow> string" where
  "strip s = rev (dropWhile is_space (rev (dropWhile is_space s)))"

fun split_on :: "char \<Rightarrow> string \<Rightarrow> string list" where
  \<comment> \<open>\<^verbatim>\<open>s.split(c)\<close> for a separator of one character\<close>
  "split_on c [] = [[]]"
| "split_on c (x # xs) =
     (if x = c then [] # split_on c xs
      else (case split_on c xs of [] \<Rightarrow> [[x]] | y # ys \<Rightarrow> (x # y) # ys))"

function replace_str :: "string \<Rightarrow> string \<Rightarrow> string \<Rightarrow> string" where
  \<comment> \<open>\<^verbatim>\<open>s.replace(old, new)\<close>, every occurrence from the left, \<^verbatim>\<open>old\<close> not empty\<close>
  "replace_str old new [] = []"
| "replace_str old new (c # cs) =
     (if old \<noteq> [] \<and> take (length old) (c # cs) = old
      then new @ replace_str old new (drop (length old) (c # cs))
      else c # replace_str old new cs)"
  by pat_completeness auto
termination
  by (relation "measure (\<lambda>(old, new, s). length s)") auto

definition path_join :: "string \<Rightarrow> string \<Rightarrow> string" where
  \<comment> \<open>\<^verbatim>\<open>os.path.join(a, b)\<close> of posixpath\<close>
  "path_join a b =
     (if b \<noteq> [] \<and> hd b = CHR ''/'' then b
      else if a = [] \<or> last a = CHR ''/'' then a @ b
      else a @ ''/'' @ b)"

definition basename_split :: "string \<Rightarrow> string \<times> string" where
  \<comment> \<open>the path up to and with its last slash, and what follows it\<close>
  "basename_split p =
     (let r = rev p
      in (rev (dropWhile (\<lambda>c. c \<noteq> CHR ''/'') r), rev (takeWhile (\<lambda>c. c \<noteq> CHR ''/'') r)))"

definition splitext_root :: "string \<Rightarrow> string" where
  \<comment> \<open>\<^verbatim>\<open>os.path.splitext(p)[0]\<close>: the last dot of the last component splits, unless
      only dots come before it there\<close>
  "splitext_root p =
     (let (h, t) = basename_split p;
          e = length (takeWhile (\<lambda>c. c \<noteq> CHR ''.'') (rev t))
      in if e < length t \<and> (\<exists>c \<in> set (take (length t - e - 1) t). c \<noteq> CHR ''.'')
         then h @ take (length t - e - 1) t
         else p)"

definition dirname :: "string \<Rightarrow> string" where
  \<comment> \<open>\<^verbatim>\<open>os.path.dirname(p)\<close> of posixpath\<close>
  "dirname p =
     (let h = fst (basename_split p)
      in if h \<noteq> [] \<and> (\<exists>c \<in> set h. c \<noteq> CHR ''/'')
         then rev (dropWhile (\<lambda>c. c = CHR ''/'') (rev h))
         else h)"

definition basename :: "string \<Rightarrow> string" where
  "basename p = snd (basename_split p)"

subsection \<open>Regular expressions\<close>

text \<open>
  The patterns of the source are sequences of single characters and greedy repetitions
  of a character class, each repetition being a group. \<^verbatim>\<open>re.match\<close> anchors at the
  start only, tries the longest repetition first and gives back one character at a
  time; the groups of the first match found are returned.
\<close>

datatype rx = One "char \<Rightarrow> bool" | Rep nat "char \<Rightarrow> bool" | Eos

fun rep :: "(char \<Rightarrow> bool) \<Rightarrow> (string \<Rightarrow> string \<Rightarrow> 'a option) \<Rightarrow> string \<Rightarrow> string \<Rightarrow> 'a option" where
  "rep p k acc [] = k acc []"
| "rep p k acc (c # cs) =
     (if p c
      then (case rep p k (acc @ [c]) cs of Some r \<Rightarrow> Some r | None \<Rightarrow> k acc (c # cs))
      else k acc (c # cs))"

fun rmatch :: "rx list \<Rightarrow> string \<Rightarrow> string list option" where
  "rmatch [] s = Some []"
| "rmatch (One p # rs) s = (case s of [] \<Rightarrow> None | c # cs \<Rightarrow> if p c then rmatch rs cs else None)"
| "rmatch (Rep m p # rs) s =
     rep p (\<lambda>acc rest. if length acc < m then None else map_option (Cons acc) (rmatch rs rest)) [] s"
| "rmatch (Eos # rs) s = (if s = [] \<or> s = [CHR 0x0A] then rmatch rs s else None)"

definition lit :: "string \<Rightarrow> rx list" where
  \<comment> \<open>a literal, or a pattern passed through \<^verbatim>\<open>re.escape\<close>\<close>
  "lit s = map (\<lambda>c. One (\<lambda>x. x = c)) s"

definition dot :: "char \<Rightarrow> bool" where
  "dot c = (c \<noteq> CHR 0x0A)"

definition raw :: "string \<Rightarrow> rx list" where
  \<comment> \<open>a string used as a pattern unescaped: its dots match any character but newline\<close>
  "raw s = map (\<lambda>c. if c = CHR ''.'' then One dot else One (\<lambda>x. x = c)) s"

definition is_digit :: "char \<Rightarrow> bool" where
  \<comment> \<open>\<^verbatim>\<open>\d\<close>: the decimal digits\<close>
  "is_digit c = (let n = (of_char c :: nat) in 48 \<le> n \<and> n \<le> 57)"

definition is_word :: "char \<Rightarrow> bool" where
  \<comment> \<open>\<^verbatim>\<open>\w\<close> on \<^verbatim>\<open>str\<close>: the alphanumeric code points and the underscore\<close>
  "is_word c =
     (let n = (of_char c :: nat)
      in (48 \<le> n \<and> n \<le> 57) \<or> (65 \<le> n \<and> n \<le> 90) \<or> n = 95 \<or> (97 \<le> n \<and> n \<le> 122)
         \<or> n = 170 \<or> n = 178 \<or> n = 179 \<or> n = 181 \<or> n = 185 \<or> n = 186
         \<or> (188 \<le> n \<and> n \<le> 190) \<or> (192 \<le> n \<and> n \<le> 214) \<or> (216 \<le> n \<and> n \<le> 246)
         \<or> 248 \<le> n)"

subsection \<open>Options and URL shapes\<close>

text \<open>
  The options dictionary, read with \<^verbatim>\<open>options.get(key, default)\<close>: a missing string
  option is the empty string, a missing flag is false.
\<close>

record options =
  collections :: string
  bulkdata :: string
  years :: string
  congress :: string
  extract_formats_opt :: string
  name_filter :: string
  cached :: bool
  force :: bool

definition GOVINFO_BASE_URL :: string where
  "GOVINFO_BASE_URL = ''https://www.govinfo.gov/''"

definition COLLECTION_BASE_URL :: string where
  "COLLECTION_BASE_URL = GOVINFO_BASE_URL @ ''app/details/''"

definition BULKDATA_BASE_URL :: string where
  "BULKDATA_BASE_URL = GOVINFO_BASE_URL @ ''bulkdata/''"

definition rx_collection_index :: "rx list" where
  "rx_collection_index =
     lit GOVINFO_BASE_URL @ lit ''sitemap/'' @ [Rep 1 is_word] @ lit ''_sitemap_index''
       @ [One dot] @ lit ''xml''"

definition rx_bulkdata_index :: "rx list" where
  "rx_bulkdata_index =
     lit GOVINFO_BASE_URL @ lit ''sitemap/bulkdata/'' @ [Rep 1 is_word] @ lit ''/sitemapindex''
       @ [One dot] @ lit ''xml''"

definition rx_year_sitemap :: "rx list" where
  "rx_year_sitemap =
     lit GOVINFO_BASE_URL @ lit ''sitemap/'' @ [Rep 1 is_word] @ lit ''_'' @ [Rep 1 is_digit]
       @ lit ''_sitemap'' @ [One dot] @ lit ''xml''"

definition rx_bulkdata_group :: "rx list" where
  "rx_bulkdata_group =
     lit GOVINFO_BASE_URL @ lit ''sitemap/bulkdata/'' @ [Rep 1 is_word] @ lit ''/''
       @ [Rep 1 is_digit, Rep 0 dot] @ lit ''/sitemap'' @ [One dot] @ lit ''xml''"

definition rx_bulkdata_path :: "rx list" where
  "rx_bulkdata_path =
     lit GOVINFO_BASE_URL @ lit ''sitemap/bulkdata/'' @ [Rep 1 is_word] @ lit ''/''
       @ [Rep 1 dot] @ lit ''/sitemap'' @ [One dot] @ lit ''xml''"

definition should_skip_sitemap :: "string \<Rightarrow> options \<Rightarrow> bool" where
  "should_skip_sitemap url opts =
     (if rmatch rx_collection_index url \<noteq> None then False
      else if rmatch rx_bulkdata_index url \<noteq> None then False
      else
        let year_filter = strip (years opts);
            congress_filter = strip (congress opts)
        in if (case rmatch rx_year_sitemap url of
                 Some [c, year] \<Rightarrow> year_filter \<noteq> [] \<and> year \<notin> set (split_on CHR '','' year_filter)
               | _ \<Rightarrow> False)
           then True
           else (case rmatch rx_bulkdata_group url of
                   Some [c, numeric_grouping, r] \<Rightarrow>
                     if year_filter \<noteq> []
                        \<and> numeric_grouping \<notin> set (split_on CHR '','' year_filter) then True
                     else if congress_filter \<noteq> []
                        \<and> numeric_grouping \<notin> set (split_on CHR '','' congress_filter) then True
                     else False
                 | _ \<Rightarrow> False))"

datatype error =
    ValueError string
  | KeyError string
  | BadZipFile
  | XMLSyntaxError string
  | UnmatchedURL string
  | YAMLError
  | FileNotFoundError string
  | CollaboratorError

definition get_sitemap_cache_file :: "string \<Rightarrow> error + string" where
  "get_sitemap_cache_file url =
     (case rmatch rx_collection_index url of
        Some [c] \<Rightarrow> Inr c
      | _ \<Rightarrow>
     (case rmatch rx_year_sitemap url of
        Some [c, y] \<Rightarrow> Inr (c @ ''/'' @ y)
      | _ \<Rightarrow>
     (case rmatch rx_bulkdata_index url of
        Some [c] \<Rightarrow> Inr (c @ ''-bulkdata'')
      | _ \<Rightarrow>
     (case rmatch rx_bulkdata_path url of
        Some [c, g] \<Rightarrow> Inr (c @ ''-bulkdata/'' @ g)
      | _ \<Rightarrow> Inl (ValueError url)))))"

subsection \<open>The fetch decision\<close>

definition truthy :: "string option \<Rightarrow> bool" where
  \<comment> \<open>Python's truth value of a string or \<^verbatim>\<open>None\<close>\<close>
  "truthy x = (case x of None \<Rightarrow> False | Some s \<Rightarrow> s \<noteq> [])"

definition should_download_sitemap :: "string option \<Rightarrow> string option \<Rightarrow> options \<Rightarrow> bool" where
  "should_download_sitemap lastmod_cache current_lastmod opts =
     (if \<not> truthy current_lastmod then True
      else if force opts then True
      else if cached opts then False
      else current_lastmod \<noteq> lastmod_cache)"

subsection \<open>The world: files, the remote site, collaborators\<close>

text \<open>
  The file system is a flat map from paths to contents: directories and permissions are
  not modelled, and writing a file always succeeds. Beside the files the world keeps
  three logs that the program itself does not read: the URLs requested from the remote
  site, the archives opened, and the store files written back by the walker.
\<close>

record world =
  files :: "string \<rightharpoonup> string"
  fetched :: "string list"
  opened :: "string list"
  dumped :: "string list"

type_synonym item_record = "(string \<times> string) list"
  \<comment> \<open>the \<^verbatim>\<open>files\<close> dictionary of one package: \<^verbatim>\<open>package\<close> and the formats, each with
      a lastmod, in insertion order\<close>

type_synonym packages = "string \<rightharpoonup> item_record option"
  \<comment> \<open>package name to its entry; the entry may lack the \<^verbatim>\<open>files\<close> key\<close>

record store =
  store_lastmod :: "string option"
  store_packages :: "packages option"

datatype sitemap =
    SitemapIndex "(string \<times> string) list"
  | UrlSet "(string \<times> string) list"
  | OtherDocument

datatype member = Stored string | Damaged
  \<comment> \<open>an archive member: its bytes, or bytes that fail the checksum when read\<close>

text \<open>
  What lies outside \<^verbatim>\<open>govinfo.py\<close> is a parameter: the remote site (a URL gives a body
  or fails), the two directories of \<^verbatim>\<open>utils\<close>, \<^verbatim>\<open>rtyaml\<close>, the XML parser (a body is not
  XML, or lists \<^verbatim>\<open>loc\<close> and \<^verbatim>\<open>lastmod\<close> strings under one of the two root tags, or has
  another root tag), \<^verbatim>\<open>zipfile\<close> (bytes are no archive, or map member names to
  members), the order in which a Python set of strings, given by its elements, is iterated,
  \<^verbatim>\<open>re.search\<close> with the user's pattern (which may not compile), the unwrapping
  of HTML, the routing of bill paths through \<^verbatim>\<open>get_bill_id_for_package\<close> and
  \<^verbatim>\<open>output_for_bill\<close> of \<^verbatim>\<open>core.tasks.bills\<close>, and the summary of a bill version written from
  its MODS file.
\<close>

record env =
  remote :: "string \<Rightarrow> string option"
  cache_dir :: string
  data_dir :: string
  yaml_load :: "string \<Rightarrow> store option"
  yaml_dump :: "store \<Rightarrow> string"
  parse_sitemap :: "string \<Rightarrow> sitemap option"
  unzip :: "string \<Rightarrow> (string \<rightharpoonup> member) option"
  set_order :: "string list \<Rightarrow> string list"
  re_search :: "string \<Rightarrow> string \<Rightarrow> bool option"
  unwrap_text_in_html :: "string \<Rightarrow> error + string"
  bills_path :: "string \<Rightarrow> string \<Rightarrow> error + string option"
  billstatus_path :: "string \<Rightarrow> error + string"
  extract_bill_version_metadata :: "string \<Rightarrow> string \<Rightarrow> (string \<rightharpoonup> string) \<Rightarrow> error + (string \<rightharpoonup> string)"

definition download :: "env \<Rightarrow> string \<Rightarrow> string \<Rightarrow> bool \<Rightarrow> bool \<Rightarrow> world \<Rightarrow> string option \<times> world" where
  \<comment> \<open>Modelled from the spec: \<^verbatim>\<open>utils.download(url, destination, options)\<close>, the Transport,
      is not in the file. It "fetches a URL, optionally consulting/populating a local
      byte cache, returning the body or a failure signal": unless forced it answers from
      the destination file when that exists; otherwise it asks the remote site, and on
      success stores the body at the destination. \<^verbatim>\<open>to_cache\<close> places the destination
      under the cache directory.\<close>
  "download e url destination frc to_cache w =
     (let p = (if to_cache then path_join (cache_dir e) destination else destination)
      in if \<not> frc \<and> files w p \<noteq> None then (files w p, w)
         else (case remote e url of
                 None \<Rightarrow> (None, w\<lparr>fetched := fetched w @ [url]\<rparr>)
               | Some body \<Rightarrow>
                   (Some body, w\<lparr>files := (files w)(p \<mapsto> body), fetched := fetched w @ [url]\<rparr>)))"

definition write_file :: "string \<Rightarrow> string \<Rightarrow> world \<Rightarrow> world" where
  \<comment> \<open>Modelled from the spec: \<^verbatim>\<open>utils.write(content, path)\<close>; the marker file holds
      "exactly the raw lastmod token as text"\<close>
  "write_file content p w = w\<lparr>files := (files w)(p \<mapsto> content)\<rparr>"

definition read_file :: "string \<Rightarrow> world \<Rightarrow> string option" where
  \<comment> \<open>Modelled from the spec: \<^verbatim>\<open>utils.read(path)\<close>, the text of the marker file\<close>
  "read_file p w = files w p"

subsection \<open>The container mirror and the extractor\<close>

datatype retval = RTrue | RNone | RList "string list"
  \<comment> \<open>what a mirror function returns: \<^verbatim>\<open>True\<close>, \<^verbatim>\<open>None\<close> or a list of paths\<close>

definition rx_crpt :: "rx list" where
  "rx_crpt =
     [Rep 1 is_digit, One (\<lambda>c. c = CHR ''h'' \<or> c = CHR ''s'' \<or> c = CHR ''e'')] @ lit ''rpt''
       @ [Rep 1 is_digit, Eos]"

definition get_output_path :: "env \<Rightarrow> string \<Rightarrow> string \<Rightarrow> options \<Rightarrow> error + string option" where
  "get_output_path e collection package_name opts =
     (if collection = ''BILLS'' then bills_path e package_name (congress opts)
      else if collection = ''CRPT'' then
        (case rmatch rx_crpt package_name of
           Some [cong, report_number] \<Rightarrow>
             (let report_type = take 4 (drop (length cong) package_name)
              in if congress opts \<noteq> [] \<and> cong \<noteq> congress opts then Inr None
                 else Inr (Some (data_dir e @ ''/'' @ cong @ ''/crpt/'' @ report_type @ ''/''
                                   @ report_type @ report_number)))
         | _ \<Rightarrow> Inl (ValueError package_name))
      else Inr (Some (data_dir e @ ''/govinfo/'' @ collection @ ''/'' @ package_name)))"

definition mirror_package_zipfile ::
  "env \<Rightarrow> string \<Rightarrow> string \<Rightarrow> string \<Rightarrow> string \<Rightarrow> item_record \<Rightarrow> options \<Rightarrow> world
     \<Rightarrow> bool \<times> item_record \<times> world" where
  "mirror_package_zipfile e collection package_name file_path lastmod lastmod_cache opts w =
     (if map_of lastmod_cache ''package'' = Some lastmod \<and> \<not> force opts then (False, lastmod_cache, w)
      else if files w file_path \<noteq> None \<and> cached opts then (False, lastmod_cache, w)
      else
        let file_url = GOVINFO_BASE_URL @ ''content/pkg/'' @ collection @ ''-'' @ package_name @ ''.zip'';
            (body, w') = download e file_url file_path True False w
        in (True, AList.update ''package'' lastmod lastmod_cache, w'))"

definition format_paths :: "string \<Rightarrow> string \<Rightarrow> string \<Rightarrow> (string \<times> string) option" where
  \<comment> \<open>the member name inside the archive, already formatted, and the local file name\<close>
  "format_paths collection package_name fmt =
     (let cp = collection @ ''-'' @ package_name
      in if fmt = ''pdf'' then Some (cp @ ''/pdf/'' @ cp @ ''.pdf'', ''document.pdf'')
         else if fmt = ''text'' then Some (cp @ ''/html/'' @ cp @ ''.htm'', ''document.html'')
         else if fmt = ''xml'' then Some (cp @ ''/xml/'' @ cp @ ''.xml'', ''document.xml'')
         else if fmt = ''mods'' then Some (cp @ ''/mods.xml'', ''mods.xml'')
         else if fmt = ''premis'' then Some (cp @ ''/premis.xml'', ''premis.xml'')
         else None)"

definition requested_formats :: "options \<Rightarrow> string list" where
  \<comment> \<open>the elements of the set of formats of \<^verbatim>\<open>--extract\<close>, each once; the order in which
      the program meets them is not this list's but \<^term>\<open>set_order\<close>'s\<close>
  "requested_formats opts =
     remdups (filter (\<lambda>f. strip f \<noteq> []) (split_on CHR '','' (extract_formats_opt opts)))"

fun eligible_formats :: "item_record \<Rightarrow> string list \<Rightarrow> error + string list" where
  "eligible_formats r [] = Inr []"
| "eligible_formats r (f # fs) =
     (case map_of r f of
        None \<Rightarrow> (case eligible_formats r fs of Inl x \<Rightarrow> Inl x | Inr es \<Rightarrow> Inr (f # es))
      | Some t \<Rightarrow>
          (case map_of r ''package'' of
             None \<Rightarrow> Inl (KeyError ''package'')
           | Some pk \<Rightarrow>
               (case eligible_formats r fs of
                  Inl x \<Rightarrow> Inl x
                | Inr es \<Rightarrow> Inr (if t < pk then f # es else es))))"

fun extract_loop ::
  "env \<Rightarrow> string \<Rightarrow> string \<Rightarrow> string \<Rightarrow> (string \<rightharpoonup> member) \<Rightarrow> string list
     \<Rightarrow> string list \<Rightarrow> item_record \<Rightarrow> world \<Rightarrow> (error + string list) \<times> item_record \<times> world" where
  "extract_loop e collection package_name package_file package [] extracted_files r w =
     (Inr extracted_files, r, w)"
| "extract_loop e collection package_name package_file package (fmt # fmts) extracted_files r w =
     (case format_paths collection package_name fmt of
        None \<Rightarrow> (Inl (ValueError (''invalid format: '' @ fmt)), r, w)
      | Some (package_path, local_name) \<Rightarrow>
          let local_path = path_join (dirname package_file) local_name
          in (case package package_path of
                None \<Rightarrow>
                  (case map_of r ''package'' of
                     None \<Rightarrow> (Inl (KeyError ''package''), r, w)
                   | Some pk \<Rightarrow>
                       extract_loop e collection package_name package_file package fmts
                         extracted_files (AList.update fmt pk r) w)
              | Some Damaged \<Rightarrow>
                  (case map_of r ''package'' of
                     None \<Rightarrow> (Inl (KeyError ''package''), r, write_file [] local_path w)
                   | Some pk \<Rightarrow> (Inl BadZipFile, AList.update fmt pk r, write_file [] local_path w))
              | Some (Stored bytes) \<Rightarrow>
                  (case map_of r ''package'' of
                     None \<Rightarrow> (Inl (KeyError ''package''), r, write_file bytes local_path w)
                   | Some pk \<Rightarrow>
                       let r1 = AList.update fmt pk r;
                           w1 = write_file bytes local_path w;
                           files1 = extracted_files @ [local_path]
                       in if fmt = ''text'' then
                            (let file_path_text = replace_str ''.html'' ''.txt'' local_path
                             in case unwrap_text_in_html e bytes of
                                  Inl x \<Rightarrow> (Inl x, r1, write_file [] file_path_text w1)
                                | Inr txt \<Rightarrow>
                                    extract_loop e collection package_name package_file package fmts
                                      (files1 @ [file_path_text]) r1 (write_file txt file_path_text w1))
                          else if collection = ''BILLS'' \<and> fmt = ''mods'' then
                            (case extract_bill_version_metadata e package_name (dirname package_file)
                                    (files w1) of
                               Inl x \<Rightarrow> (Inl x, r1, w1)
                             | Inr fs \<Rightarrow>
                                 extract_loop e collection package_name package_file package fmts
                                   files1 r1 (w1\<lparr>files := fs\<rparr>))
                          else extract_loop e collection package_name package_file package fmts
                                 files1 r1 w1)))"

definition extract_package_files ::
  "env \<Rightarrow> string \<Rightarrow> string \<Rightarrow> string \<Rightarrow> item_record \<Rightarrow> options \<Rightarrow> world
     \<Rightarrow> (error + string list) \<times> item_record \<times> world" where
  "extract_package_files e collection package_name package_file lastmod_cache opts w =
     (case files w package_file of
        None \<Rightarrow> (Inr [], lastmod_cache, w)
      | Some content \<Rightarrow>
          (case eligible_formats lastmod_cache (requested_formats opts) of
             Inl x \<Rightarrow> (Inl x, lastmod_cache, w)
           | Inr [] \<Rightarrow> (Inr [], lastmod_cache, w)
           | Inr (f # fs) \<Rightarrow>
               let w1 = w\<lparr>opened := opened w @ [package_file]\<rparr>
               in (case unzip e content of
                     None \<Rightarrow> (Inl BadZipFile, lastmod_cache, w1)
                   | Some package \<Rightarrow>
                       extract_loop e collection package_name package_file package
                         (set_order e (f # fs)) [] lastmod_cache w1)))"

definition package_record :: "packages \<Rightarrow> string \<Rightarrow> item_record" where
  \<comment> \<open>\<^verbatim>\<open>lastmod_cache.setdefault(package_name, {}).setdefault("files", {})\<close>\<close>
  "package_record pk package_name =
     (case pk package_name of None \<Rightarrow> [] | Some None \<Rightarrow> [] | Some (Some r) \<Rightarrow> r)"

definition mirror_package ::
  "env \<Rightarrow> string \<Rightarrow> string \<Rightarrow> string \<Rightarrow> packages \<Rightarrow> options \<Rightarrow> world
     \<Rightarrow> (error + retval) \<times> packages \<times> world" where
  "mirror_package e collection package_name lastmod pk opts w =
     (case get_output_path e collection package_name opts of
        Inl x \<Rightarrow> (Inl x, pk, w)
      | Inr None \<Rightarrow> (Inr (RList []), pk, w)
      | Inr (Some path) \<Rightarrow>
          if path = [] then (Inr (RList []), pk, w)
          else
            let r0 = package_record pk package_name;
                file_path = path_join path ''package.zip'';
                lastmod_cache_file = splitext_root file_path @ ''-lastmod.txt'';
                r1 = (if r0 \<noteq> [] \<and> files w file_path = None then [] else r0)
            in if files w lastmod_cache_file \<noteq> None \<and> \<not> force opts
                  \<and> Some lastmod = read_file lastmod_cache_file w
               then (Inr RTrue, pk(package_name \<mapsto> Some r1), w)
               else
                 let (got, r2, w2) =
                       mirror_package_zipfile e collection package_name file_path lastmod r1 opts w;
                     downloaded_files = (if got then [file_path] else [])
                 in (case extract_package_files e collection package_name file_path r2 opts w2 of
                       (Inl BadZipFile, r3, w3) \<Rightarrow>
                         (case files w3 file_path of
                            None \<Rightarrow> (Inl (FileNotFoundError file_path), pk(package_name \<mapsto> Some r3), w3)
                          | Some c \<Rightarrow>
                              (Inr (RList []), pk(package_name \<mapsto> Some r3),
                               w3\<lparr>files := (files w3)(file_path := None)\<rparr>))
                     | (Inl x, r3, w3) \<Rightarrow> (Inl x, pk(package_name \<mapsto> Some r3), w3)
                     | (Inr extracted_files, r3, w3) \<Rightarrow>
                         (Inr (RList (downloaded_files @ extracted_files)),
                          pk(package_name \<mapsto> Some r3),
                          if lastmod \<noteq> [] then write_file lastmod lastmod_cache_file w3 else w3)))"

subsection \<open>The flat item mirror\<close>

definition mirror_bulkdata_file ::
  "env \<Rightarrow> string \<Rightarrow> string \<Rightarrow> string \<Rightarrow> string \<Rightarrow> options \<Rightarrow> world \<Rightarrow> (error + retval) \<times> world" where
  "mirror_bulkdata_file e collection url item_path lastmod opts w =
     (case (if collection = ''BILLSTATUS'' then billstatus_path e item_path
            else Inr (data_dir e @ ''/govinfo/'' @ collection @ ''/'' @ item_path)) of
        Inl x \<Rightarrow> (Inl x, w)
      | Inr path \<Rightarrow>
          let lastmod_cache_file = splitext_root path @ ''-lastmod.txt''
          in if files w lastmod_cache_file \<noteq> None \<and> \<not> force opts
                \<and> Some lastmod = read_file lastmod_cache_file w
             then (Inr (RList [path]), w)
             else if files w path \<noteq> None \<and> cached opts then (Inr RNone, w)
             else
               let (data, w1) = download e url path True False w
               in if data = None \<or> data = Some [] then (Inr RNone, w1)
                  else (Inr (RList [path]), write_file lastmod lastmod_cache_file w1))"

subsection \<open>The sitemap walker\<close>

definition rx_package_url :: "rx list" where
  "rx_package_url =
     raw COLLECTION_BASE_URL @ [Rep 1 (\<lambda>c. c \<noteq> CHR ''-'')] @ lit ''-'' @ [Rep 0 dot]"

definition rx_bulkdata_url :: "rx list" where
  "rx_bulkdata_url =
     raw BULKDATA_BASE_URL @ [Rep 1 (\<lambda>c. c \<noteq> CHR ''/'')] @ lit ''/'' @ [Rep 0 dot]"

type_synonym package_task = "string \<times> string \<times> string"
  \<comment> \<open>collection, package name, lastmod\<close>

type_synonym bulkdata_task = "string \<times> string \<times> string \<times> string"
  \<comment> \<open>collection, url, item path, lastmod\<close>

definition setdefault_packages :: "store \<Rightarrow> store" where
  \<comment> \<open>\<^verbatim>\<open>lastmod_cache.setdefault("packages", {})\<close>\<close>
  "setdefault_packages st =
     (case store_packages st of None \<Rightarrow> st\<lparr>store_packages := Some Map.empty\<rparr> | Some m \<Rightarrow> st)"

fun build_tasks ::
  "env \<Rightarrow> options \<Rightarrow> (string \<times> string) list \<Rightarrow> package_task list \<Rightarrow> bulkdata_task list \<Rightarrow> store
     \<Rightarrow> (error + package_task list \<times> bulkdata_task list) \<times> store" where
  "build_tasks e opts [] mirror_package_tasks mirror_bulkdata_file_tasks st =
     (Inr (mirror_package_tasks, mirror_bulkdata_file_tasks), st)"
| "build_tasks e opts ((url, lastmod) # nodes) mirror_package_tasks mirror_bulkdata_file_tasks st =
     (case rmatch rx_package_url url of
        Some [collection, package_name] \<Rightarrow>
          (case (if name_filter opts = [] then Some True
                 else re_search e (name_filter opts) package_name) of
             None \<Rightarrow> (Inl CollaboratorError, st)
           | Some False \<Rightarrow>
               build_tasks e opts nodes mirror_package_tasks mirror_bulkdata_file_tasks st
           | Some True \<Rightarrow>
               build_tasks e opts nodes
                 (mirror_package_tasks @ [(collection, package_name, lastmod)])
                 mirror_bulkdata_file_tasks (setdefault_packages st))
      | _ \<Rightarrow>
          (case rmatch rx_bulkdata_url url of
             Some [collection, item_path] \<Rightarrow>
               (case (if name_filter opts = [] then Some True
                      else re_search e (name_filter opts) item_path) of
                  None \<Rightarrow> (Inl CollaboratorError, st)
                | Some False \<Rightarrow>
                    build_tasks e opts nodes mirror_package_tasks mirror_bulkdata_file_tasks st
                | Some True \<Rightarrow>
                    build_tasks e opts nodes mirror_package_tasks
                      (mirror_bulkdata_file_tasks @ [(collection, url, item_path, lastmod)]) st)
           | _ \<Rightarrow> (Inl (UnmatchedURL url), st)))"

text \<open>
  The pool runs the tasks of a batch in worker processes. Here a batch runs in list
  order and stops at the first task that raises. Each worker receives a pickled copy
  of the packages mapping, so what a task records in it does not reach the walker's
  store; what it does to the files does.
\<close>

fun run_bulkdata_tasks ::
  "env \<Rightarrow> options \<Rightarrow> bulkdata_task list \<Rightarrow> world \<Rightarrow> (error + retval list) \<times> world" where
  "run_bulkdata_tasks e opts [] w = (Inr [], w)"
| "run_bulkdata_tasks e opts ((collection, url, item_path, lastmod) # ts) w =
     (case mirror_bulkdata_file e collection url item_path lastmod opts w of
        (Inl x, w1) \<Rightarrow> (Inl x, w1)
      | (Inr v, w1) \<Rightarrow>
          (case run_bulkdata_tasks e opts ts w1 of
             (Inl x, w2) \<Rightarrow> (Inl x, w2)
           | (Inr vs, w2) \<Rightarrow> (Inr (v # vs), w2)))"

fun run_package_tasks ::
  "env \<Rightarrow> options \<Rightarrow> packages \<Rightarrow> package_task list \<Rightarrow> world \<Rightarrow> (error + retval list) \<times> world" where
  "run_package_tasks e opts pk [] w = (Inr [], w)"
| "run_package_tasks e opts pk ((collection, package_name, lastmod) # ts) w =
     (case mirror_package e collection package_name lastmod pk opts w of
        (Inl x, pk1, w1) \<Rightarrow> (Inl x, w1)
      | (Inr v, pk1, w1) \<Rightarrow>
          (case run_package_tasks e opts pk ts w1 of
             (Inl x, w2) \<Rightarrow> (Inl x, w2)
           | (Inr vs, w2) \<Rightarrow> (Inr (v # vs), w2)))"

type_synonym walk = "string \<Rightarrow> string option \<Rightarrow> string list \<Rightarrow> options \<Rightarrow> world
  \<Rightarrow> ((error + retval list) \<times> world) option"
  \<comment> \<open>a call of \<^verbatim>\<open>update_sitemap\<close>; no value when the nesting of indexes exceeds the depth
      allowed\<close>

fun walk_children ::
  "walk \<Rightarrow> string list \<Rightarrow> options \<Rightarrow> (string \<times> string) list \<Rightarrow> retval list \<Rightarrow> world
     \<Rightarrow> ((error + retval list) \<times> world) option" where
  "walk_children rec how_we_got_here opts [] results w = Some (Inr results, w)"
| "walk_children rec how_we_got_here opts ((url, lastmod) # nodes) results w =
     (case rec url (Some lastmod) how_we_got_here opts w of
        None \<Rightarrow> None
      | Some (Inl x, w1) \<Rightarrow> Some (Inl x, w1)
      | Some (Inr sitemap_results, w1) \<Rightarrow>
          walk_children rec how_we_got_here opts nodes (results @ sitemap_results) w1)"

definition update_sitemap2 ::
  "walk \<Rightarrow> env \<Rightarrow> string \<Rightarrow> string option \<Rightarrow> string list \<Rightarrow> options \<Rightarrow> store \<Rightarrow> string \<Rightarrow> world
     \<Rightarrow> ((error + retval list) \<times> store \<times> world) option" where
  "update_sitemap2 rec e url current_lastmod how_we_got_here opts lastmod_cache cache_file w =
     (let dl = should_download_sitemap (store_lastmod lastmod_cache) current_lastmod opts;
          (body, w1) = download e url cache_file dl True w
      in case body of
           None \<Rightarrow> Some (Inr [], lastmod_cache, w1)
         | Some b \<Rightarrow>
             if b = [] then Some (Inr [], lastmod_cache, w1)
             else
               let st1 = (if dl \<and> truthy current_lastmod
                          then lastmod_cache\<lparr>store_lastmod := current_lastmod\<rparr>
                          else lastmod_cache)
               in (case parse_sitemap e b of
                     None \<Rightarrow> Some (Inl (XMLSyntaxError url), st1, w1)
                   | Some (SitemapIndex nodes) \<Rightarrow>
                       (case walk_children rec how_we_got_here opts nodes [] w1 of
                          None \<Rightarrow> None
                        | Some (r, w2) \<Rightarrow> Some (r, st1, w2))
                   | Some (UrlSet nodes) \<Rightarrow>
                       (case build_tasks e opts nodes [] [] st1 of
                          (Inl x, st2) \<Rightarrow> Some (Inl x, st2, w1)
                        | (Inr (mirror_package_tasks, mirror_bulkdata_file_tasks), st2) \<Rightarrow>
                            (case run_bulkdata_tasks e opts mirror_bulkdata_file_tasks w1 of
                               (Inl x, w2) \<Rightarrow> Some (Inl x, st2, w2)
                             | (Inr rs1, w2) \<Rightarrow>
                                 (case run_package_tasks e opts
                                         (case store_packages st2 of None \<Rightarrow> Map.empty | Some m \<Rightarrow> m)
                                         mirror_package_tasks w2 of
                                    (Inl x, w3) \<Rightarrow> Some (Inl x, st2, w3)
                                  | (Inr rs2, w3) \<Rightarrow> Some (Inr (rs1 @ rs2), st2, w3))))
                   | Some OtherDocument \<Rightarrow> Some (Inr [], st1, w1)))"

definition store_file :: "env \<Rightarrow> string \<Rightarrow> string \<times> string" where
  \<comment> \<open>the path of the cached sitemap, relative to the cache directory, and the path of the
      store file beside it\<close>
  "store_file e cf =
     (let cache_file = path_join (path_join ''govinfo/sitemap'' cf) ''sitemap.xml''
      in (cache_file, path_join (cache_dir e) (replace_str ''.xml'' ''-lastmod.yaml'' cache_file)))"

definition load_store :: "env \<Rightarrow> string \<Rightarrow> world \<Rightarrow> error + store" where
  "load_store e lastmod_cache_file w =
     (case files w lastmod_cache_file of
        None \<Rightarrow> Inr \<lparr>store_lastmod = None, store_packages = None\<rparr>
      | Some txt \<Rightarrow> (case yaml_load e txt of None \<Rightarrow> Inl YAMLError | Some st \<Rightarrow> Inr st))"

definition dump_store :: "env \<Rightarrow> string \<Rightarrow> store \<Rightarrow> world \<Rightarrow> world" where
  "dump_store e lastmod_cache_file st w =
     w\<lparr>files := (files w)(lastmod_cache_file \<mapsto> yaml_dump e st),
       dumped := dumped w @ [lastmod_cache_file]\<rparr>"

definition update_sitemap_call :: "walk \<Rightarrow> env \<Rightarrow> walk" where
  \<comment> \<open>the body of \<^verbatim>\<open>update_sitemap\<close>, its recursive calls going to \<open>rec\<close>\<close>
  "update_sitemap_call rec e url current_lastmod how_we_got_here opts w =
     (if should_skip_sitemap url opts then Some (Inr [], w)
      else
        (case get_sitemap_cache_file url of
           Inl x \<Rightarrow> Some (Inl x, w)
         | Inr cf \<Rightarrow>
             let (cache_file, lastmod_cache_file) = store_file e cf
             in (case load_store e lastmod_cache_file w of
                   Inl x \<Rightarrow> Some (Inl x, w)
                 | Inr lastmod_cache \<Rightarrow>
                     (case update_sitemap2 rec e url current_lastmod (how_we_got_here @ [url]) opts
                             lastmod_cache cache_file w of
                        None \<Rightarrow> None
                      | Some (r, st, w1) \<Rightarrow> Some (r, dump_store e lastmod_cache_file st w1)))))"

primrec update_sitemap :: "nat \<Rightarrow> env \<Rightarrow> walk" where
  \<comment> \<open>\<^verbatim>\<open>update_sitemap\<close> for index documents nested at most \<open>depth\<close> deep\<close>
  "update_sitemap 0 e = update_sitemap_call (\<lambda>url current_lastmod how_we_got_here opts w. None) e"
| "update_sitemap (Suc depth) e = update_sitemap_call (update_sitemap depth e) e"



subsection \<open>The fetch decision as the specification words it\<close>

definition spec_fetch_decision :: "string option \<Rightarrow> string option \<Rightarrow> options \<Rightarrow> bool" where
  \<comment> \<open>"fetch unconditionally if parentLastmod is absent; fetch if options.force; never
      fetch if options.cacheOnly; otherwise fetch iff parentLastmod != store.lastmod"\<close>
  "spec_fetch_decision stored parent opts =
     (if parent = None then True
      else if force opts then True
      else if cached opts then False
      else parent \<noteq> stored)"

subsection \<open>Eligibility as the specification words it\<close>

definition spec_eligible :: "item_record \<Rightarrow> string \<Rightarrow> bool" where
  \<comment> \<open>"a format is eligible if its recorded component timestamp is absent or strictly
      older than itemRecord.packageLastmod"\<close>
  "spec_eligible r f =
     (case map_of r f of
        None \<Rightarrow> True
      | Some t \<Rightarrow> (case map_of r ''package'' of None \<Rightarrow> False | Some pk \<Rightarrow> t < pk))"

subsection \<open>The contract of the container mirror as the specification words it\<close>

definition returns_paths :: "error + retval \<Rightarrow> bool" where
  \<comment> \<open>"mirror(containerId, lastmod, itemRecord, options) -> list of written paths"\<close>
  "returns_paths res = (case res of Inr (RList xs) \<Rightarrow> True | _ \<Rightarrow> False)"

subsection \<open>What a step may do to the logs\<close>




subsection \<open>Concrete inputs\<close>

definition no_options :: options where
  "no_options =
     \<lparr>collections = [], bulkdata = [], years = [], congress = [], extract_formats_opt = [],
      name_filter = [], cached = False, force = False\<rparr>"

definition empty_world :: world where
  "empty_world = \<lparr>files = Map.empty, fetched = [], opened = [], dumped = []\<rparr>"

definition world_of :: "(string \<rightharpoonup> string) \<Rightarrow> world" where
  "world_of fs = \<lparr>files = fs, fetched = [], opened = [], dumped = []\<rparr>"

definition package_zip :: string where
  "package_zip = ''data/govinfo/STATUTE/STATUTE-1/package.zip''"

definition package_marker :: string where
  "package_marker = ''data/govinfo/STATUTE/STATUTE-1/package-lastmod.txt''"







definition test_env :: "(string \<Rightarrow> string option) \<Rightarrow> env" where
  \<comment> \<open>a site given by its answers; the body \<^verbatim>\<open>index\<close> is an empty index document, the
      body \<^verbatim>\<open>urlset\<close> an empty leaf-bearing one, the bytes \<^verbatim>\<open>zip\<close> an archive with
      no member, any other bytes are damaged; a set is iterated in the order its
      elements are given; a store file holds the store's lastmod\<close>
  "test_env site =
     \<lparr>remote = site, cache_dir = ''cache'', data_dir = ''data'',
      yaml_load = (\<lambda>txt. Some \<lparr>store_lastmod = (if txt = [] then None else Some txt),
                                store_packages = None\<rparr>),
      yaml_dump = (\<lambda>st. case store_lastmod st of None \<Rightarrow> [] | Some l \<Rightarrow> l),
      parse_sitemap = (\<lambda>b. if b = ''index'' then Some (SitemapIndex [])
                            else if b = ''urlset'' then Some (UrlSet []) else None),
      unzip = (\<lambda>b. if b = ''zip'' then Some Map.empty else None),
      set_order = (\<lambda>xs. xs),
      re_search = (\<lambda>pat s. Some True),
      unwrap_text_in_html = Inr,
      bills_path = (\<lambda>package_name cong. Inr None),
      billstatus_path = (\<lambda>item_path. Inr (''data/'' @ item_path)),
      extract_bill_version_metadata = (\<lambda>package_name dir fs. Inr fs)\<rparr>"

section \<open>Properties\<close>

subsection \<open>The fetch decision\<close>

text \<open>
  C2, as it stands, fails: a parent lastmod that is present but empty is not absent, so
  with \<^verbatim>\<open>cached\<close> set the specification's wording answers "do not fetch", while
  \<^verbatim>\<open>not current_lastmod\<close> is true of the empty string and the code answers "fetch".
\<close>

theorem should_download_sitemap_empty_lastmod_counterexample:
  "should_download_sitemap None (Some []) (no_options\<lparr>cached := True\<rparr>)
     \<noteq> spec_fetch_decision None (Some []) (no_options\<lparr>cached := True\<rparr>)"
  by (simp add: should_download_sitemap_def spec_fetch_decision_def truthy_def no_options_def)

text \<open>
  C2, amended: for every stored lastmod, parent lastmod and options the decision is true
  when the parent lastmod is absent or the empty string; otherwise true when \<^verbatim>\<open>force\<close> is
  set; otherwise false when \<^verbatim>\<open>cached\<close> is set; otherwise true exactly when the parent
  lastmod differs from the stored one.
\<close>

theorem should_download_sitemap_decision:
  "should_download_sitemap stored parent opts =
     (if parent = None \<or> parent = Some [] then True
      else if force opts then True
      else if cached opts then False
      else parent \<noteq> stored)"
  by (cases parent) (auto simp: should_download_sitemap_def truthy_def)

theorem should_download_sitemap_decision_witness:
  "should_download_sitemap (Some ''2020-01-01'') (Some ''2020-01-01'') no_options = False
   \<and> should_download_sitemap (Some ''2020-01-01'') (Some ''2020-02-01'') no_options = True"
  using should_download_sitemap_decision [of "Some ''2020-01-01''" "Some ''2020-01-01''" no_options]
    should_download_sitemap_decision [of "Some ''2020-01-01''" "Some ''2020-02-01''" no_options]
  by (simp add: no_options_def)

subsection \<open>The skip filter\<close>

lemma rmatch_lit: "rmatch (lit p @ rs) s = (if take (length p) s = p then rmatch rs (drop (length p) s) else None)"
  by (induction p arbitrary: s) (auto simp: lit_def split: list.splits)

lemma take_eq_append: "take (length p) s = p \<Longrightarrow> s = p @ drop (length p) s"
  by (metis append_take_drop_id)

lemma bulkdata_group_prefix:
  assumes "rmatch rx_bulkdata_group url = Some g"
  shows "\<exists>t. url = ''https://www.govinfo.gov/sitemap/bulkdata/'' @ t"
proof -
  have "rmatch (lit (GOVINFO_BASE_URL @ ''sitemap/bulkdata/'') @ ([Rep 1 is_word] @ lit ''/''
       @ [Rep 1 is_digit, Rep 0 dot] @ lit ''/sitemap'' @ [One dot] @ lit ''xml'')) url = Some g"
    using assms by (simp add: rx_bulkdata_group_def lit_def)
  then have "take (length (GOVINFO_BASE_URL @ ''sitemap/bulkdata/'')) url = GOVINFO_BASE_URL @ ''sitemap/bulkdata/''"
    unfolding rmatch_lit by (simp split: if_splits)
  then have "url = (GOVINFO_BASE_URL @ ''sitemap/bulkdata/'') @ drop (length (GOVINFO_BASE_URL @ ''sitemap/bulkdata/'')) url"
    by (rule take_eq_append)
  then show ?thesis by (auto simp: GOVINFO_BASE_URL_def)
qed

lemma year_sitemap_not_bulkdata:
  "rmatch rx_year_sitemap (''https://www.govinfo.gov/sitemap/bulkdata/'' @ t) = None"
  by (simp add: rx_year_sitemap_def lit_def GOVINFO_BASE_URL_def is_word_def)

lemma year_not_bulk:
  assumes "rmatch rx_bulkdata_group url = Some g"
  shows "rmatch rx_year_sitemap url = None"
proof -
  obtain t where "url = ''https://www.govinfo.gov/sitemap/bulkdata/'' @ t"
    using bulkdata_group_prefix [OF assms] ..
  then show ?thesis
    by (simp only: year_sitemap_not_bulkdata)
qed

text \<open>
  C7: a URL of either index shape is never skipped, whatever the filters. A URL of the
  year-grouped shape (and of no index shape) is skipped exactly when the year filter is
  not empty and the year of the URL is not one of its comma-separated entries. A URL of
  the bulk-data grouping shape is skipped exactly when the year filter, or the congress
  filter, is not empty and lacks the grouping token. A skipped node returns the empty
  list and leaves the world, its log of requests included, as it was.
\<close>

theorem should_skip_sitemap_shapes:
  "(rmatch rx_collection_index url \<noteq> None \<or> rmatch rx_bulkdata_index url \<noteq> None
      \<longrightarrow> \<not> should_skip_sitemap url opts)
   \<and> (rmatch rx_collection_index url = None \<and> rmatch rx_bulkdata_index url = None
        \<and> rmatch rx_year_sitemap url = Some [c, year]
      \<longrightarrow> should_skip_sitemap url opts
            = (strip (years opts) \<noteq> [] \<and> year \<notin> set (split_on CHR '','' (strip (years opts)))))
   \<and> (rmatch rx_collection_index url = None \<and> rmatch rx_bulkdata_index url = None
        \<and> rmatch rx_bulkdata_group url = Some [c', grouping, r]
      \<longrightarrow> should_skip_sitemap url opts
            = ((strip (years opts) \<noteq> [] \<and> grouping \<notin> set (split_on CHR '','' (strip (years opts))))
               \<or> (strip (congress opts) \<noteq> []
                   \<and> grouping \<notin> set (split_on CHR '','' (strip (congress opts))))))
   \<and> (should_skip_sitemap url opts
      \<longrightarrow> update_sitemap depth e url current_lastmod how_we_got_here opts w = Some (Inr [], w))"
proof (intro conjI impI)
  assume "rmatch rx_collection_index url \<noteq> None \<or> rmatch rx_bulkdata_index url \<noteq> None"
  then show "\<not> should_skip_sitemap url opts"
    by (auto simp: should_skip_sitemap_def)
next
  assume a: "rmatch rx_collection_index url = None \<and> rmatch rx_bulkdata_index url = None
        \<and> rmatch rx_year_sitemap url = Some [c, year]"
  have "rmatch rx_bulkdata_group url = None"
  proof (cases "rmatch rx_bulkdata_group url")
    case (Some g)
    from year_not_bulk [OF this] a show ?thesis by simp
  qed simp
  with a show "should_skip_sitemap url opts
            = (strip (years opts) \<noteq> [] \<and> year \<notin> set (split_on CHR '','' (strip (years opts))))"
    by (simp add: should_skip_sitemap_def Let_def)
next
  assume a: "rmatch rx_collection_index url = None \<and> rmatch rx_bulkdata_index url = None
        \<and> rmatch rx_bulkdata_group url = Some [c', grouping, r]"
  then have "rmatch rx_year_sitemap url = None"
    using year_not_bulk by blast
  with a show "should_skip_sitemap url opts
            = ((strip (years opts) \<noteq> [] \<and> grouping \<notin> set (split_on CHR '','' (strip (years opts))))
               \<or> (strip (congress opts) \<noteq> []
                   \<and> grouping \<notin> set (split_on CHR '','' (strip (congress opts)))))"
    by (auto simp: should_skip_sitemap_def Let_def)
next
  assume "should_skip_sitemap url opts"
  then show "update_sitemap depth e url current_lastmod how_we_got_here opts w = Some (Inr [], w)"
    by (cases depth) (simp_all add: update_sitemap_call_def)
qed

theorem should_skip_sitemap_shapes_witness:
  "\<not> should_skip_sitemap ''https://www.govinfo.gov/sitemap/BILLS_sitemap_index.xml''
       (no_options\<lparr>years := ''2020''\<rparr>)
   \<and> \<not> should_skip_sitemap ''https://www.govinfo.gov/sitemap/bulkdata/BILLSTATUS/sitemapindex.xml''
       (no_options\<lparr>congress := ''116''\<rparr>)
   \<and> should_skip_sitemap ''https://www.govinfo.gov/sitemap/BILLS_2019_sitemap.xml''
       (no_options\<lparr>years := ''2020''\<rparr>)
   \<and> \<not> should_skip_sitemap ''https://www.govinfo.gov/sitemap/BILLS_2020_sitemap.xml''
       (no_options\<lparr>years := ''2020''\<rparr>)
   \<and> should_skip_sitemap ''https://www.govinfo.gov/sitemap/bulkdata/BILLSTATUS/115hr/sitemap.xml''
       (no_options\<lparr>congress := ''116''\<rparr>)
   \<and> update_sitemap 1 (test_env (\<lambda>u. None)) ''https://www.govinfo.gov/sitemap/BILLS_2019_sitemap.xml''
       (Some ''2021-01-01'') [] (no_options\<lparr>years := ''2020''\<rparr>) empty_world
     = Some (Inr [], empty_world)"
proof -
  let ?i1 = "''https://www.govinfo.gov/sitemap/BILLS_sitemap_index.xml''"
  let ?i2 = "''https://www.govinfo.gov/sitemap/bulkdata/BILLSTATUS/sitemapindex.xml''"
  let ?y19 = "''https://www.govinfo.gov/sitemap/BILLS_2019_sitemap.xml''"
  let ?y20 = "''https://www.govinfo.gov/sitemap/BILLS_2020_sitemap.xml''"
  let ?b = "''https://www.govinfo.gov/sitemap/bulkdata/BILLSTATUS/115hr/sitemap.xml''"
  note ev = lit_def GOVINFO_BASE_URL_def is_word_def is_digit_def dot_def
  have i1: "rmatch rx_collection_index ?i1 \<noteq> None"
    by (simp add: rx_collection_index_def ev)
  have i2: "rmatch rx_bulkdata_index ?i2 \<noteq> None"
    by (simp add: rx_bulkdata_index_def ev)
  have y19: "rmatch rx_collection_index ?y19 = None" "rmatch rx_bulkdata_index ?y19 = None"
    "rmatch rx_year_sitemap ?y19 = Some [''BILLS'', ''2019'']"
    by (simp_all add: rx_collection_index_def rx_bulkdata_index_def rx_year_sitemap_def ev)
  have y20: "rmatch rx_collection_index ?y20 = None" "rmatch rx_bulkdata_index ?y20 = None"
    "rmatch rx_year_sitemap ?y20 = Some [''BILLS'', ''2020'']"
    by (simp_all add: rx_collection_index_def rx_bulkdata_index_def rx_year_sitemap_def ev)
  have b: "rmatch rx_collection_index ?b = None" "rmatch rx_bulkdata_index ?b = None"
    "rmatch rx_bulkdata_group ?b = Some [''BILLSTATUS'', ''115'', ''hr'']"
    by (simp_all add: rx_collection_index_def rx_bulkdata_index_def rx_bulkdata_group_def ev)
  note opt = no_options_def strip_def is_space_def
  have s1: "\<not> should_skip_sitemap ?i1 (no_options\<lparr>years := ''2020''\<rparr>)"
    using should_skip_sitemap_shapes [where url = ?i1 and opts = "no_options\<lparr>years := ''2020''\<rparr>"] i1 by blast
  have s2: "\<not> should_skip_sitemap ?i2 (no_options\<lparr>congress := ''116''\<rparr>)"
    using should_skip_sitemap_shapes [where url = ?i2 and opts = "no_options\<lparr>congress := ''116''\<rparr>"] i2 by blast
  have s3: "should_skip_sitemap ?y19 (no_options\<lparr>years := ''2020''\<rparr>)"
    using should_skip_sitemap_shapes [where url = ?y19 and c = "''BILLS''" and year = "''2019''"
        and opts = "no_options\<lparr>years := ''2020''\<rparr>"] y19
    by (simp add: opt)
  have s4: "\<not> should_skip_sitemap ?y20 (no_options\<lparr>years := ''2020''\<rparr>)"
    using should_skip_sitemap_shapes [where url = ?y20 and c = "''BILLS''" and year = "''2020''"
        and opts = "no_options\<lparr>years := ''2020''\<rparr>"] y20
    by (simp add: opt)
  have s5: "should_skip_sitemap ?b (no_options\<lparr>congress := ''116''\<rparr>)"
    using should_skip_sitemap_shapes [where url = ?b and c' = "''BILLSTATUS''" and grouping = "''115''"
        and r = "''hr''" and opts = "no_options\<lparr>congress := ''116''\<rparr>"] b
    by (simp add: opt)
  have s6: "update_sitemap 1 (test_env (\<lambda>u. None)) ?y19 (Some ''2021-01-01'') []
       (no_options\<lparr>years := ''2020''\<rparr>) empty_world = Some (Inr [], empty_world)"
    using should_skip_sitemap_shapes [where url = ?y19 and opts = "no_options\<lparr>years := ''2020''\<rparr>"
        and depth = 1 and e = "test_env (\<lambda>u. None)" and current_lastmod = "Some ''2021-01-01''"
        and how_we_got_here = "[]" and w = empty_world] s3
    by blast
  from s1 s2 s3 s4 s5 s6 show ?thesis by blast
qed

subsection \<open>The extractor\<close>

lemma eligible_formats_filter:
  "\<forall>f \<in> set fs. map_of r f \<noteq> None \<longrightarrow> map_of r ''package'' \<noteq> None
   \<Longrightarrow> eligible_formats r fs = Inr (filter (spec_eligible r) fs)"
  by (induction fs) (auto simp: spec_eligible_def split: option.splits)

lemma test_env_zip:
  "unzip (test_env site) b = (if b = ''zip'' then Some Map.empty else None)"
  "set_order (test_env site) xs = xs"
  by (simp_all add: test_env_def)

lemma world_of_files: "files (world_of fs) = fs"
  by (simp add: world_of_def)

lemma requested_pdf:
  "requested_formats (no_options\<lparr>extract_formats_opt := ''pdf''\<rparr>) = [''pdf'']"
  "requested_formats (no_options\<lparr>extract_formats_opt := ''pdf,xml''\<rparr>) = [''pdf'', ''xml'']"
  "requested_formats (no_options\<lparr>extract_formats_opt := ''pdf'', cached := True\<rparr>) = [''pdf'']"
  by (simp_all add: requested_formats_def no_options_def strip_def is_space_def)

lemma statute_members:
  "format_paths ''STATUTE'' ''STATUTE-1'' ''pdf''
     = Some (''STATUTE-STATUTE-1/pdf/STATUTE-STATUTE-1.pdf'', ''document.pdf'')"
  "format_paths ''STATUTE'' ''STATUTE-1'' ''xml''
     = Some (''STATUTE-STATUTE-1/xml/STATUTE-STATUTE-1.xml'', ''document.xml'')"
  by (simp_all add: format_paths_def)

text \<open>
  C6: on every record in which each requested format that has a recorded timestamp can
  be compared (the record then has a package timestamp), the formats the extractor keeps
  are exactly the requested formats whose recorded timestamp is absent or strictly older
  than the package timestamp, and the extractor does what follows with exactly these: if
  the archive file is missing or none is eligible it returns the empty list and leaves
  the record and the world, its log of opened archives included, as they were;
  otherwise it opens the archive once and runs its loop over the eligible formats, in
  the order the set yields them.
\<close>

theorem extract_package_files_eligible:
  assumes "\<forall>f \<in> set (requested_formats opts). map_of r f \<noteq> None \<longrightarrow> map_of r ''package'' \<noteq> None"
  shows "eligible_formats r (requested_formats opts) = Inr (filter (spec_eligible r) (requested_formats opts))
    \<and> extract_package_files e collection package_name package_file r opts w
        = (case files w package_file of
             None \<Rightarrow> (Inr [], r, w)
           | Some content \<Rightarrow>
               if filter (spec_eligible r) (requested_formats opts) = [] then (Inr [], r, w)
               else (case unzip e content of
                       None \<Rightarrow> (Inl BadZipFile, r, w\<lparr>opened := opened w @ [package_file]\<rparr>)
                     | Some package \<Rightarrow>
                         extract_loop e collection package_name package_file package
                           (set_order e (filter (spec_eligible r) (requested_formats opts))) [] r
                           (w\<lparr>opened := opened w @ [package_file]\<rparr>)))
    \<and> (filter (spec_eligible r) (requested_formats opts) = []
        \<longrightarrow> extract_package_files e collection package_name package_file r opts w = (Inr [], r, w))"
  using eligible_formats_filter [OF assms]
  by (simp add: extract_package_files_def Let_def split: option.splits list.splits)

theorem extract_package_files_eligible_witness:
  "extract_package_files (test_env (\<lambda>u. None)) ''STATUTE'' ''STATUTE-1'' package_zip
        [(''package'', ''2020-01-01''), (''pdf'', ''2020-01-01'')]
        (no_options\<lparr>extract_formats_opt := ''pdf''\<rparr>) (world_of [package_zip \<mapsto> ''zip''])
      = (Inr [], [(''package'', ''2020-01-01''), (''pdf'', ''2020-01-01'')],
         world_of [package_zip \<mapsto> ''zip''])
   \<and> extract_package_files (test_env (\<lambda>u. None)) ''STATUTE'' ''STATUTE-1'' package_zip
        [(''package'', ''2020-01-01''), (''pdf'', ''2020-01-01'')]
        (no_options\<lparr>extract_formats_opt := ''pdf,xml''\<rparr>) (world_of [package_zip \<mapsto> ''zip''])
      = (Inr [], [(''package'', ''2020-01-01''), (''pdf'', ''2020-01-01''), (''xml'', ''2020-01-01'')],
         (world_of [package_zip \<mapsto> ''zip''])\<lparr>opened := [package_zip]\<rparr>)
   \<and> eligible_formats [(''package'', ''2020-02-01''), (''pdf'', ''2020-01-01'')]
        (requested_formats (no_options\<lparr>extract_formats_opt := ''pdf''\<rparr>)) = Inr [''pdf'']"
proof -
  let ?e = "test_env (\<lambda>u. None)"
  let ?r = "[(''package'', ''2020-01-01''), (''pdf'', ''2020-01-01'')]"
  let ?w = "world_of [package_zip \<mapsto> ''zip'']"
  have a: "extract_package_files ?e ''STATUTE'' ''STATUTE-1'' package_zip ?r
        (no_options\<lparr>extract_formats_opt := ''pdf''\<rparr>) ?w = (Inr [], ?r, ?w)"
    using extract_package_files_eligible [where r = ?r
        and opts = "no_options\<lparr>extract_formats_opt := ''pdf''\<rparr>" and e = ?e
        and collection = "''STATUTE''" and package_name = "''STATUTE-1''" and package_file = package_zip
        and w = ?w]
    by (simp add: requested_pdf spec_eligible_def world_of_files)
  have b: "extract_package_files ?e ''STATUTE'' ''STATUTE-1'' package_zip ?r
        (no_options\<lparr>extract_formats_opt := ''pdf,xml''\<rparr>) ?w
      = (Inr [], [(''package'', ''2020-01-01''), (''pdf'', ''2020-01-01''), (''xml'', ''2020-01-01'')],
         ?w\<lparr>opened := [package_zip]\<rparr>)"
    using extract_package_files_eligible [where r = ?r
        and opts = "no_options\<lparr>extract_formats_opt := ''pdf,xml''\<rparr>" and e = ?e
        and collection = "''STATUTE''" and package_name = "''STATUTE-1''" and package_file = package_zip
        and w = ?w]
    by (simp add: requested_pdf spec_eligible_def test_env_zip world_of_def statute_members)
  have c: "eligible_formats [(''package'', ''2020-02-01''), (''pdf'', ''2020-01-01'')]
        (requested_formats (no_options\<lparr>extract_formats_opt := ''pdf''\<rparr>)) = Inr [''pdf'']"
    using extract_package_files_eligible [where r = "[(''package'', ''2020-02-01''), (''pdf'', ''2020-01-01'')]"
        and opts = "no_options\<lparr>extract_formats_opt := ''pdf''\<rparr>"]
    by (simp add: requested_pdf spec_eligible_def)
  from a b c show ?thesis by (intro conjI)
qed

lemma eligible_formats_no_package:
  "map_of r ''package'' = None
   \<Longrightarrow> eligible_formats r fs
       = (if \<exists>f \<in> set fs. map_of r f \<noteq> None then Inl (KeyError ''package'') else Inr fs)"
  by (induction fs) (auto split: option.splits sum.splits)

lemma extract_loop_no_package:
  "map_of r ''package'' = None \<Longrightarrow> format_paths c p f \<noteq> None
   \<Longrightarrow> fst (extract_loop e c p pf z (f # fs) ex r w) = Inl (KeyError ''package'')"
  by (auto simp: Let_def split: option.splits member.splits)

lemma mirror_package_zipfile_sets_package:
  assumes "files w fp = None"
  shows "map_of (fst (snd (mirror_package_zipfile e c p fp lm r opts w))) ''package'' = Some lm"
proof (cases "map_of r ''package'' = Some lm \<and> \<not> force opts")
  case True
  then show ?thesis by (simp add: mirror_package_zipfile_def)
next
  case False
  with assms show ?thesis
    by (auto simp: mirror_package_zipfile_def Let_def update_conv' split: prod.splits)
qed

text \<open>
  C10: whenever the archive file exists and the item record lacks a package timestamp,
  and either some requested format has a recorded timestamp, or the archive opens and
  the format the set yields first has an entry in the naming table, the extractor raises
  \<^verbatim>\<open>KeyError\<close> on the lookup of \<^verbatim>\<open>package\<close> instead of returning a result. The archive is
  then always there: when it is missing, the record that \<^verbatim>\<open>mirror_package_zipfile\<close> hands
  on has a package timestamp.
\<close>

theorem extract_package_files_KeyError:
  assumes "files w package_file = Some content" and "map_of r ''package'' = None"
    and "(\<exists>f \<in> set (requested_formats opts). map_of r f \<noteq> None)
         \<or> (unzip e content = Some z \<and> f \<in> set (requested_formats opts)
             \<and> set_order e (requested_formats opts) = f # fs
             \<and> format_paths collection package_name f \<noteq> None)"
  shows "fst (extract_package_files e collection package_name package_file r opts w)
           = Inl (KeyError ''package'')
    \<and> (files w' file_path = None
        \<longrightarrow> map_of (fst (snd (mirror_package_zipfile e collection package_name file_path lm r' opts w')))
              ''package'' = Some lm)"
proof (rule conjI)
  show "files w' file_path = None
        \<longrightarrow> map_of (fst (snd (mirror_package_zipfile e collection package_name file_path lm r' opts w')))
              ''package'' = Some lm"
    by (simp add: mirror_package_zipfile_sets_package)
next
  show "fst (extract_package_files e collection package_name package_file r opts w)
           = Inl (KeyError ''package'')"
  proof (cases "\<exists>f \<in> set (requested_formats opts). map_of r f \<noteq> None")
    case True
    with assms(1,2) show ?thesis
      by (simp add: extract_package_files_def eligible_formats_no_package)
  next
    case False
    with assms(3) have rq: "unzip e content = Some z" "f \<in> set (requested_formats opts)"
      "set_order e (requested_formats opts) = f # fs"
      "format_paths collection package_name f \<noteq> None" by auto
    from rq(2) obtain g gs where ne: "requested_formats opts = g # gs"
      by (cases "requested_formats opts") auto
    have el: "eligible_formats r (requested_formats opts) = Inr (g # gs)"
      using False assms(2) ne by (simp add: eligible_formats_no_package)
    have so: "set_order e (g # gs) = f # fs" using rq(3) ne by simp
    show ?thesis
      using assms(1) el rq(1) so extract_loop_no_package [OF assms(2) rq(4)]
      by (simp add: extract_package_files_def Let_def)
  qed
qed

theorem extract_package_files_KeyError_witness:
  "fst (extract_package_files (test_env (\<lambda>u. None)) ''STATUTE'' ''STATUTE-1'' package_zip
          [(''pdf'', ''2020-01-01'')] (no_options\<lparr>extract_formats_opt := ''pdf''\<rparr>)
          (world_of [package_zip \<mapsto> ''zip'']))
     = Inl (KeyError ''package'')
   \<and> fst (extract_package_files (test_env (\<lambda>u. None)) ''STATUTE'' ''STATUTE-1'' package_zip
          [] (no_options\<lparr>extract_formats_opt := ''pdf''\<rparr>)
          (world_of [package_zip \<mapsto> ''zip'']))
     = Inl (KeyError ''package'')"
proof -
  let ?e = "test_env (\<lambda>u. None)"
  let ?w = "world_of [package_zip \<mapsto> ''zip'']"
  let ?o = "no_options\<lparr>extract_formats_opt := ''pdf''\<rparr>"
  have a: "fst (extract_package_files ?e ''STATUTE'' ''STATUTE-1'' package_zip
          [(''pdf'', ''2020-01-01'')] ?o ?w) = Inl (KeyError ''package'')"
    using extract_package_files_KeyError [where w = ?w
        and package_file = package_zip and content = "''zip''" and r = "[(''pdf'', ''2020-01-01'')]"
        and opts = ?o and e = ?e and collection = "''STATUTE''" and package_name = "''STATUTE-1''"]
    by (simp add: requested_pdf world_of_files)
  have b: "fst (extract_package_files ?e ''STATUTE'' ''STATUTE-1'' package_zip [] ?o ?w)
     = Inl (KeyError ''package'')"
    using extract_package_files_KeyError [where w = ?w
        and package_file = package_zip and content = "''zip''" and r = "[]"
        and opts = ?o and e = ?e and collection = "''STATUTE''" and package_name = "''STATUTE-1''"
        and f = "''pdf''" and fs = "[]" and z = Map.empty]
    by (simp add: requested_pdf world_of_files test_env_zip statute_members)
  from a b show ?thesis by (intro conjI)
qed








subsection \<open>The container mirror\<close>

lemma path_join_last: "b \<noteq> [] \<Longrightarrow> last (path_join a b) = last b"
  by (simp add: path_join_def)

lemma marker_not_archive:
  "splitext_root (path_join path ''package.zip'') @ ''-lastmod.txt'' \<noteq> path_join path ''package.zip''"
proof
  assume "splitext_root (path_join path ''package.zip'') @ ''-lastmod.txt'' = path_join path ''package.zip''"
  then have "last (splitext_root (path_join path ''package.zip'') @ ''-lastmod.txt'')
      = last (path_join path ''package.zip'')" by simp
  then show False by (simp add: path_join_last)
qed

lemma download_direct:
  "download e url dest True False w = (body, w')
   \<Longrightarrow> fetched w' = fetched w @ [url] \<and> opened w' = opened w \<and> dumped w' = dumped w
       \<and> (\<forall>q. q \<noteq> dest \<longrightarrow> files w' q = files w q)"
  by (auto simp: download_def split: option.splits)

lemma mirror_package_zipfile_files:
  assumes "mirror_package_zipfile e c p fp lm r opts w = (got, r', w')"
  shows "opened w' = opened w \<and> dumped w' = dumped w \<and> (\<forall>q. q \<noteq> fp \<longrightarrow> files w' q = files w q)"
proof (cases "(map_of r ''package'' = Some lm \<and> \<not> force opts) \<or> (files w fp \<noteq> None \<and> cached opts)")
  case True
  with assms have "w' = w" by (auto simp: mirror_package_zipfile_def split: if_splits)
  then show ?thesis by simp
next
  case False
  obtain body w1 where d: "download e (GOVINFO_BASE_URL @ ''content/pkg/'' @ c @ ''-'' @ p @ ''.zip'') fp True False w = (body, w1)"
    by (cases "download e (GOVINFO_BASE_URL @ ''content/pkg/'' @ c @ ''-'' @ p @ ''.zip'') fp True False w")
  with False assms have "w' = w1" by (auto simp: mirror_package_zipfile_def Let_def split: if_splits)
  with download_direct [OF d] show ?thesis by simp
qed

lemma extract_package_files_corrupt:
  "files w fp = Some content \<Longrightarrow> unzip e content = None
   \<Longrightarrow> eligible_formats r (requested_formats opts) = Inr (f # fs)
   \<Longrightarrow> extract_package_files e c p fp r opts w = (Inl BadZipFile, r, w\<lparr>opened := opened w @ [fp]\<rparr>)"
  by (simp add: extract_package_files_def Let_def)


lemma mirror_package_skip:
  assumes "get_output_path e c p opts = Inr (Some path)" and "path \<noteq> []"
    and "\<not> force opts"
    and "files w (splitext_root (path_join path ''package.zip'') @ ''-lastmod.txt'') = Some lm"
  shows "fst (mirror_package e c p lm pk opts w) = Inr RTrue"
    and "snd (snd (mirror_package e c p lm pk opts w)) = w"
  using assms by (simp_all add: mirror_package_def Let_def read_file_def)

lemma mirror_package_work:
  assumes "get_output_path e c p opts = Inr (Some path)" and "path \<noteq> []"
    and "\<not> (\<not> force opts
          \<and> files w (splitext_root (path_join path ''package.zip'') @ ''-lastmod.txt'') = Some lm)"
    and "r1 = (if package_record pk p \<noteq> [] \<and> files w (path_join path ''package.zip'') = None
               then [] else package_record pk p)"
    and "mirror_package_zipfile e c p (path_join path ''package.zip'') lm r1 opts w = (got, r2, w2)"
    and "extract_package_files e c p (path_join path ''package.zip'') r2 opts w2 = (res, r3, w3)"
  shows "mirror_package e c p lm pk opts w =
     (case res of
        Inl x \<Rightarrow>
          if x = BadZipFile then
            (case files w3 (path_join path ''package.zip'') of
               None \<Rightarrow> (Inl (FileNotFoundError (path_join path ''package.zip'')), pk(p \<mapsto> Some r3), w3)
             | Some c \<Rightarrow> (Inr (RList []), pk(p \<mapsto> Some r3),
                          w3\<lparr>files := (files w3)(path_join path ''package.zip'' := None)\<rparr>))
          else (Inl x, pk(p \<mapsto> Some r3), w3)
      | Inr extracted_files \<Rightarrow>
          (Inr (RList ((if got then [path_join path ''package.zip''] else []) @ extracted_files)),
           pk(p \<mapsto> Some r3),
           if lm \<noteq> [] then write_file lm (splitext_root (path_join path ''package.zip'') @ ''-lastmod.txt'') w3
           else w3))"
proof -
  have gate: "\<not> (files w (splitext_root (path_join path ''package.zip'') @ ''-lastmod.txt'') \<noteq> None
      \<and> \<not> force opts
      \<and> Some lm = read_file (splitext_root (path_join path ''package.zip'') @ ''-lastmod.txt'') w)"
    using assms(3) by (auto simp: read_file_def)
  show ?thesis
  proof (cases res)
    case (Inl x)
    show ?thesis
      unfolding mirror_package_def
      using assms(1,2) gate assms(5,6) [unfolded assms(4)] Inl
      by (cases x) (simp_all add: Let_def split: option.splits)
  next
    case (Inr xs)
    show ?thesis
      unfolding mirror_package_def
      using assms(1,2) gate assms(5,6) [unfolded assms(4)] Inr
      by (simp add: Let_def)
  qed
qed


lemma mirror_package_no_skip:
  assumes "\<not> (\<exists>path. get_output_path e c p opts = Inr (Some path) \<and> path \<noteq> [] \<and> \<not> force opts
          \<and> files w (splitext_root (path_join path ''package.zip'') @ ''-lastmod.txt'') = Some lm)"
  shows "(\<exists>x. fst (mirror_package e c p lm pk opts w) = Inl x)
       \<or> (\<exists>xs. fst (mirror_package e c p lm pk opts w) = Inr (RList xs))"
proof (cases "get_output_path e c p opts")
  case (Inl x)
  then show ?thesis by (simp add: mirror_package_def)
next
  case (Inr po)
  show ?thesis
  proof (cases po)
    case None
    with Inr show ?thesis by (simp add: mirror_package_def)
  next
    case (Some path)
    show ?thesis
    proof (cases "path = []")
      case True
      with Inr Some show ?thesis by (simp add: mirror_package_def)
    next
      case False
      let ?fp = "path_join path ''package.zip''"
      let ?r1 = "if package_record pk p \<noteq> [] \<and> files w ?fp = None then [] else package_record pk p"
      obtain got r2 w2 where z: "mirror_package_zipfile e c p ?fp lm ?r1 opts w = (got, r2, w2)"
        by (cases "mirror_package_zipfile e c p ?fp lm ?r1 opts w")
      obtain res r3 w3 where x: "extract_package_files e c p ?fp r2 opts w2 = (res, r3, w3)"
        by (cases "extract_package_files e c p ?fp r2 opts w2")
      have g: "\<not> (\<not> force opts \<and> files w (splitext_root ?fp @ ''-lastmod.txt'') = Some lm)"
        using assms Inr Some False by blast
      have po: "get_output_path e c p opts = Inr (Some path)" using Inr Some by simp
      show ?thesis
        unfolding mirror_package_work [OF po False g refl z x]
        by (cases res) (auto split: option.splits)
    qed
  qed
qed

lemma statute_path:
  "get_output_path (test_env site) ''STATUTE'' ''STATUTE-1'' opts = Inr (Some ''data/govinfo/STATUTE/STATUTE-1'')"
  by (simp add: get_output_path_def test_env_def)

lemma statute_zip: "path_join ''data/govinfo/STATUTE/STATUTE-1'' ''package.zip'' = package_zip"
  by (simp add: path_join_def package_zip_def)

lemma statute_marker: "splitext_root package_zip @ ''-lastmod.txt'' = package_marker"
  by (simp add: splitext_root_def basename_split_def package_zip_def package_marker_def)

lemma zip_not_marker: "package_zip \<noteq> package_marker" "package_marker \<noteq> package_zip"
  by (simp_all add: package_zip_def package_marker_def)

text \<open>
  C5, as it stands, fails: with a marker file equal to the item's lastmod and
  \<^verbatim>\<open>force\<close> unset the container mirror returns \<^verbatim>\<open>True\<close>, which is not a list of paths.
\<close>

theorem mirror_package_true_counterexample:
  "\<not> returns_paths (fst (mirror_package (test_env (\<lambda>u. None)) ''STATUTE'' ''STATUTE-1'' ''2020-01-01''
        Map.empty no_options
        (world_of [package_zip \<mapsto> ''zip'', package_marker \<mapsto> ''2020-01-01''])))"
proof -
  have "fst (mirror_package (test_env (\<lambda>u. None)) ''STATUTE'' ''STATUTE-1'' ''2020-01-01''
        Map.empty no_options
        (world_of [package_zip \<mapsto> ''zip'', package_marker \<mapsto> ''2020-01-01''])) = Inr RTrue"
    by (rule mirror_package_skip(1) [OF statute_path])
       (simp_all add: statute_zip statute_marker no_options_def world_of_def)
  then show ?thesis by (simp add: returns_paths_def)
qed

text \<open>
  C5, amended: the container mirror returns \<^verbatim>\<open>True\<close> exactly when the path routing
  gives a non-empty directory, \<^verbatim>\<open>force\<close> is unset and the marker file beside the archive
  exists and holds the item's lastmod; it then leaves the files and the logs of requests
  and of opened archives as they were. It never returns \<^verbatim>\<open>None\<close>: every other call
  that returns gives a list of paths.
\<close>

theorem mirror_package_returns:
  "(fst (mirror_package e c p lm pk opts w) = Inr RTrue)
     = (\<exists>path. get_output_path e c p opts = Inr (Some path) \<and> path \<noteq> [] \<and> \<not> force opts
          \<and> files w (splitext_root (path_join path ''package.zip'') @ ''-lastmod.txt'') = Some lm)
   \<and> (fst (mirror_package e c p lm pk opts w) = Inr RTrue
        \<longrightarrow> snd (snd (mirror_package e c p lm pk opts w)) = w)
   \<and> fst (mirror_package e c p lm pk opts w) \<noteq> Inr RNone"
proof (cases "\<exists>path. get_output_path e c p opts = Inr (Some path) \<and> path \<noteq> [] \<and> \<not> force opts
          \<and> files w (splitext_root (path_join path ''package.zip'') @ ''-lastmod.txt'') = Some lm")
  case True
  then obtain path where "get_output_path e c p opts = Inr (Some path)" "path \<noteq> []" "\<not> force opts"
    "files w (splitext_root (path_join path ''package.zip'') @ ''-lastmod.txt'') = Some lm" by blast
  from mirror_package_skip [OF this] True show ?thesis by simp
next
  case False
  from mirror_package_no_skip [OF False, of pk] False show ?thesis by auto
qed

theorem mirror_package_returns_witness:
  "fst (mirror_package (test_env (\<lambda>u. None)) ''STATUTE'' ''STATUTE-1'' ''2020-01-01''
        Map.empty no_options
        (world_of [package_zip \<mapsto> ''zip'', package_marker \<mapsto> ''2020-01-01''])) = Inr RTrue
   \<and> snd (snd (mirror_package (test_env (\<lambda>u. None)) ''STATUTE'' ''STATUTE-1'' ''2020-01-01''
        Map.empty no_options
        (world_of [package_zip \<mapsto> ''zip'', package_marker \<mapsto> ''2020-01-01''])))
      = world_of [package_zip \<mapsto> ''zip'', package_marker \<mapsto> ''2020-01-01'']
   \<and> fst (mirror_package (test_env (\<lambda>u. None)) ''STATUTE'' ''STATUTE-1'' ''2020-01-01''
        Map.empty (no_options\<lparr>force := True\<rparr>)
        (world_of [package_zip \<mapsto> ''zip'', package_marker \<mapsto> ''2020-01-01''])) \<noteq> Inr RTrue
   \<and> fst (mirror_package (test_env (\<lambda>u. None)) ''STATUTE'' ''STATUTE-1'' ''2020-02-02''
        Map.empty no_options
        (world_of [package_zip \<mapsto> ''zip'', package_marker \<mapsto> ''2020-01-01''])) \<noteq> Inr RTrue"
proof -
  let ?w = "world_of [package_zip \<mapsto> ''zip'', package_marker \<mapsto> ''2020-01-01'']"
  let ?e = "test_env (\<lambda>u. None)"
  note ev = statute_path statute_zip statute_marker no_options_def world_of_def
  have a: "fst (mirror_package ?e ''STATUTE'' ''STATUTE-1'' ''2020-01-01'' Map.empty no_options ?w) = Inr RTrue
      \<and> snd (snd (mirror_package ?e ''STATUTE'' ''STATUTE-1'' ''2020-01-01'' Map.empty no_options ?w)) = ?w"
    using mirror_package_returns [where e = ?e and c = "''STATUTE''" and p = "''STATUTE-1''"
        and lm = "''2020-01-01''" and pk = Map.empty and opts = no_options and w = ?w]
    by (simp add: ev)
  have b: "fst (mirror_package ?e ''STATUTE'' ''STATUTE-1'' ''2020-01-01'' Map.empty
        (no_options\<lparr>force := True\<rparr>) ?w) \<noteq> Inr RTrue"
    using mirror_package_returns [where e = ?e and c = "''STATUTE''" and p = "''STATUTE-1''"
        and lm = "''2020-01-01''" and pk = Map.empty and opts = "no_options\<lparr>force := True\<rparr>" and w = ?w]
    by (simp add: ev)
  have c: "fst (mirror_package ?e ''STATUTE'' ''STATUTE-1'' ''2020-02-02'' Map.empty no_options ?w) \<noteq> Inr RTrue"
    using mirror_package_returns [where e = ?e and c = "''STATUTE''" and p = "''STATUTE-1''"
        and lm = "''2020-02-02''" and pk = Map.empty and opts = no_options and w = ?w]
    by (simp add: ev)
  from a b c show ?thesis by blast
qed

text \<open>
  C1, as it stands, fails: with a damaged archive and a marker file equal to the item's
  lastmod, a run without \<^verbatim>\<open>force\<close> returns \<^verbatim>\<open>True\<close> at once; it opens no archive
  and leaves the archive and the marker on disk.
\<close>

theorem mirror_package_corrupt_with_marker_counterexample:
  "unzip (test_env (\<lambda>u. None)) ''damaged'' = None
   \<and> fst (mirror_package (test_env (\<lambda>u. None)) ''STATUTE'' ''STATUTE-1'' ''2020-01-01''
        Map.empty (no_options\<lparr>extract_formats_opt := ''pdf''\<rparr>)
        (world_of [package_zip \<mapsto> ''damaged'', package_marker \<mapsto> ''2020-01-01''])) = Inr RTrue
   \<and> files (snd (snd (mirror_package (test_env (\<lambda>u. None)) ''STATUTE'' ''STATUTE-1'' ''2020-01-01''
        Map.empty (no_options\<lparr>extract_formats_opt := ''pdf''\<rparr>)
        (world_of [package_zip \<mapsto> ''damaged'', package_marker \<mapsto> ''2020-01-01''])))) package_zip
      = Some ''damaged''
   \<and> files (snd (snd (mirror_package (test_env (\<lambda>u. None)) ''STATUTE'' ''STATUTE-1'' ''2020-01-01''
        Map.empty (no_options\<lparr>extract_formats_opt := ''pdf''\<rparr>)
        (world_of [package_zip \<mapsto> ''damaged'', package_marker \<mapsto> ''2020-01-01''])))) package_marker
      = Some ''2020-01-01''
   \<and> opened (snd (snd (mirror_package (test_env (\<lambda>u. None)) ''STATUTE'' ''STATUTE-1'' ''2020-01-01''
        Map.empty (no_options\<lparr>extract_formats_opt := ''pdf''\<rparr>)
        (world_of [package_zip \<mapsto> ''damaged'', package_marker \<mapsto> ''2020-01-01''])))) = []"
proof -
  let ?w = "world_of [package_zip \<mapsto> ''damaged'', package_marker \<mapsto> ''2020-01-01'']"
  let ?o = "no_options\<lparr>extract_formats_opt := ''pdf''\<rparr>"
  have g: "\<not> force ?o" "files ?w (splitext_root (path_join ''data/govinfo/STATUTE/STATUTE-1'' ''package.zip'') @ ''-lastmod.txt'') = Some ''2020-01-01''"
    by (simp_all add: statute_zip statute_marker no_options_def world_of_def)
  have r: "fst (mirror_package (test_env (\<lambda>u. None)) ''STATUTE'' ''STATUTE-1'' ''2020-01-01'' Map.empty ?o ?w) = Inr RTrue"
    by (rule mirror_package_skip(1) [OF statute_path _ g]) simp
  have s: "snd (snd (mirror_package (test_env (\<lambda>u. None)) ''STATUTE'' ''STATUTE-1'' ''2020-01-01'' Map.empty ?o ?w)) = ?w"
    by (rule mirror_package_skip(2) [OF statute_path _ g]) simp
  have u: "unzip (test_env (\<lambda>u. None)) ''damaged'' = None" by (simp add: test_env_def)
  show ?thesis
    unfolding s using r u by (simp add: world_of_def zip_not_marker)
qed

text \<open>
  C1, amended: for a container item with a directory \<open>path\<close>, archive \<open>fp\<close> and
  marker \<open>mk\<close>: when \<^verbatim>\<open>force\<close> is unset and the marker holds the item's lastmod, the
  mirror returns \<^verbatim>\<open>True\<close> and changes nothing. Otherwise, when after the fetch step the
  archive is on disk, cannot be opened, and some format is eligible, the mirror opens
  it once, deletes the archive, returns the empty list, and neither deletes nor writes
  the marker.
\<close>

theorem mirror_package_corrupt_archive:
  assumes "get_output_path e c p opts = Inr (Some path)" and "path \<noteq> []"
    and "fp = path_join path ''package.zip''" and "mk = splitext_root fp @ ''-lastmod.txt''"
  shows "(\<not> force opts \<and> files w mk = Some lm
          \<longrightarrow> fst (mirror_package e c p lm pk opts w) = Inr RTrue
              \<and> snd (snd (mirror_package e c p lm pk opts w)) = w)
     \<and> (\<not> (\<not> force opts \<and> files w mk = Some lm)
        \<and> mirror_package_zipfile e c p fp lm
             (if package_record pk p \<noteq> [] \<and> files w fp = None then [] else package_record pk p) opts w
           = (got, r2, w2)
        \<and> files w2 fp = Some content \<and> unzip e content = None
        \<and> eligible_formats r2 (requested_formats opts) = Inr (f # fs)
          \<longrightarrow> fst (mirror_package e c p lm pk opts w) = Inr (RList [])
              \<and> files (snd (snd (mirror_package e c p lm pk opts w))) fp = None
              \<and> files (snd (snd (mirror_package e c p lm pk opts w))) mk = files w mk
              \<and> opened (snd (snd (mirror_package e c p lm pk opts w))) = opened w @ [fp])"
proof (intro conjI impI)
  assume a: "\<not> force opts \<and> files w mk = Some lm"
  then show "fst (mirror_package e c p lm pk opts w) = Inr RTrue"
    using mirror_package_skip(1) [OF assms(1,2)] assms(3,4) by simp
  from a show "snd (snd (mirror_package e c p lm pk opts w)) = w"
    using mirror_package_skip(2) [OF assms(1,2)] assms(3,4) by simp
next
  assume a: "\<not> (\<not> force opts \<and> files w mk = Some lm)
        \<and> mirror_package_zipfile e c p fp lm
             (if package_record pk p \<noteq> [] \<and> files w fp = None then [] else package_record pk p) opts w
           = (got, r2, w2)
        \<and> files w2 fp = Some content \<and> unzip e content = None
        \<and> eligible_formats r2 (requested_formats opts) = Inr (f # fs)"
  then have g: "\<not> (\<not> force opts \<and> files w (splitext_root (path_join path ''package.zip'') @ ''-lastmod.txt'') = Some lm)"
    and z: "mirror_package_zipfile e c p (path_join path ''package.zip'') lm
             (if package_record pk p \<noteq> [] \<and> files w (path_join path ''package.zip'') = None
              then [] else package_record pk p) opts w = (got, r2, w2)"
    and c: "files w2 fp = Some content" "unzip e content = None"
      "eligible_formats r2 (requested_formats opts) = Inr (f # fs)"
    using assms(3,4) by simp_all
  have x: "extract_package_files e c p (path_join path ''package.zip'') r2 opts w2
      = (Inl BadZipFile, r2, w2\<lparr>opened := opened w2 @ [fp]\<rparr>)"
    using extract_package_files_corrupt [OF c] assms(3) by simp
  have m: "mirror_package e c p lm pk opts w
      = (Inr (RList []), pk(p \<mapsto> Some r2),
         w2\<lparr>opened := opened w2 @ [fp], files := (files w2)(fp := None)\<rparr>)"
    unfolding mirror_package_work [OF assms(1,2) g refl z x]
    using c(1) assms(3) by simp
  have k: "mk \<noteq> fp" using marker_not_archive [of path] assms(3,4) by simp
  from mirror_package_zipfile_files [OF z] assms(3)
  have w2: "opened w2 = opened w" "files w2 mk = files w mk" using k by auto
  show "fst (mirror_package e c p lm pk opts w) = Inr (RList [])" by (simp add: m)
  show "files (snd (snd (mirror_package e c p lm pk opts w))) fp = None" by (simp add: m)
  show "files (snd (snd (mirror_package e c p lm pk opts w))) mk = files w mk"
    using k w2 by (simp add: m)
  show "opened (snd (snd (mirror_package e c p lm pk opts w))) = opened w @ [fp]"
    using w2 by (simp add: m)
qed


theorem mirror_package_corrupt_archive_witness:
  "fst (mirror_package (test_env (\<lambda>u. None)) ''STATUTE'' ''STATUTE-1'' ''2020-01-01''
        Map.empty (no_options\<lparr>extract_formats_opt := ''pdf''\<rparr>)
        (world_of [package_zip \<mapsto> ''damaged'', package_marker \<mapsto> ''2020-01-01''])) = Inr RTrue
   \<and> fst (mirror_package (test_env (\<lambda>u. None)) ''STATUTE'' ''STATUTE-1'' ''2020-01-01''
        [''STATUTE-1'' \<mapsto> Some [(''package'', ''2020-01-01'')]]
        (no_options\<lparr>extract_formats_opt := ''pdf''\<rparr>)
        (world_of [package_zip \<mapsto> ''damaged'', package_marker \<mapsto> ''2019-12-31''])) = Inr (RList [])
   \<and> files (snd (snd (mirror_package (test_env (\<lambda>u. None)) ''STATUTE'' ''STATUTE-1'' ''2020-01-01''
        [''STATUTE-1'' \<mapsto> Some [(''package'', ''2020-01-01'')]]
        (no_options\<lparr>extract_formats_opt := ''pdf''\<rparr>)
        (world_of [package_zip \<mapsto> ''damaged'', package_marker \<mapsto> ''2019-12-31''])))) package_zip = None
   \<and> files (snd (snd (mirror_package (test_env (\<lambda>u. None)) ''STATUTE'' ''STATUTE-1'' ''2020-01-01''
        [''STATUTE-1'' \<mapsto> Some [(''package'', ''2020-01-01'')]]
        (no_options\<lparr>extract_formats_opt := ''pdf''\<rparr>)
        (world_of [package_zip \<mapsto> ''damaged'', package_marker \<mapsto> ''2019-12-31''])))) package_marker
      = Some ''2019-12-31''"
proof -
  let ?e = "test_env (\<lambda>u. None)"
  let ?o = "no_options\<lparr>extract_formats_opt := ''pdf''\<rparr>"
  let ?w1 = "world_of [package_zip \<mapsto> ''damaged'', package_marker \<mapsto> ''2020-01-01'']"
  let ?w2 = "world_of [package_zip \<mapsto> ''damaged'', package_marker \<mapsto> ''2019-12-31'']"
  let ?pk = "[''STATUTE-1'' \<mapsto> Some [(''package'', ''2020-01-01'')]]"
  note ev = no_options_def world_of_def zip_not_marker
  note sp = statute_path [where site = "\<lambda>u. None" and opts = ?o]
  have a: "fst (mirror_package ?e ''STATUTE'' ''STATUTE-1'' ''2020-01-01'' Map.empty ?o ?w1) = Inr RTrue"
    using mirror_package_corrupt_archive [OF sp _ statute_zip [symmetric] statute_marker [symmetric],
        where w = ?w1 and lm = "''2020-01-01''" and pk = Map.empty]
    by (simp add: ev)
  have z: "mirror_package_zipfile ?e ''STATUTE'' ''STATUTE-1'' package_zip ''2020-01-01''
             (if package_record ?pk ''STATUTE-1'' \<noteq> [] \<and> files ?w2 package_zip = None then []
              else package_record ?pk ''STATUTE-1'') ?o ?w2
           = (False, [(''package'', ''2020-01-01'')], ?w2)"
    by (simp add: mirror_package_zipfile_def package_record_def ev)
  have h: "files ?w2 package_zip = Some ''damaged''" "unzip ?e ''damaged'' = None"
    "eligible_formats [(''package'', ''2020-01-01'')] (requested_formats ?o) = Inr [''pdf'']"
    "\<not> (\<not> force ?o \<and> files ?w2 package_marker = Some ''2020-01-01'')"
    by (simp_all add: ev test_env_def requested_formats_def strip_def is_space_def)
  have b: "fst (mirror_package ?e ''STATUTE'' ''STATUTE-1'' ''2020-01-01'' ?pk ?o ?w2) = Inr (RList [])
     \<and> files (snd (snd (mirror_package ?e ''STATUTE'' ''STATUTE-1'' ''2020-01-01'' ?pk ?o ?w2))) package_zip = None
     \<and> files (snd (snd (mirror_package ?e ''STATUTE'' ''STATUTE-1'' ''2020-01-01'' ?pk ?o ?w2))) package_marker
          = Some ''2019-12-31''"
    using mirror_package_corrupt_archive [OF sp _ statute_zip [symmetric] statute_marker [symmetric],
        where w = ?w2 and lm = "''2020-01-01''" and pk = ?pk
        and got = False and ?r2.0 = "[(''package'', ''2020-01-01'')]" and ?w2.0 = ?w2
        and content = "''damaged''" and f = "''pdf''" and fs = "[]"]
      z h
    by (simp add: ev)
  from a b show ?thesis by blast
qed

subsection \<open>Members the archive lacks\<close>






subsection \<open>The sitemap walker\<close>


















































text \<open>
  The depth allowed only bounds the nesting of indexes: a call that returns at one depth
  returns the same at every greater depth, and a call for a node whose document is not an
  index with entries returns at every depth.
\<close>

lemma walk_children_mono:
  assumes "\<And>u l h o' w x. rec u l h o' w = Some x \<Longrightarrow> rec' u l h o' w = Some x"
    and "walk_children rec h opts nodes res w = Some x"
  shows "walk_children rec' h opts nodes res w = Some x"
  using assms(2)
proof (induction nodes arbitrary: res w)
  case Nil
  then show ?case by simp
next
  case (Cons n nodes)
  obtain u l where n: "n = (u, l)" by (cases n)
  from Cons.prems obtain y where y: "rec u (Some l) h opts w = Some y"
    by (auto simp: n split: option.splits)
  with assms(1) have y': "rec' u (Some l) h opts w = Some y" by blast
  obtain r w1 where yw: "y = (r, w1)" by (cases y)
  show ?case
  proof (cases r)
    case (Inl a)
    from Cons.prems y yw Inl have "x = (Inl a, w1)" by (simp add: n)
    with y' yw Inl show ?thesis by (simp add: n)
  next
    case (Inr b)
    with Cons.prems y yw have "walk_children rec h opts nodes (res @ b) w1 = Some x"
      by (simp add: n)
    from Cons.IH [OF this] y' yw Inr show ?thesis by (simp add: n)
  qed
qed

lemma update_sitemap2_mono:
  assumes "\<And>u l h o' w x. rec u l h o' w = Some x \<Longrightarrow> rec' u l h o' w = Some x"
    and "update_sitemap2 rec e url cl h opts st cache_file w = Some x"
  shows "update_sitemap2 rec' e url cl h opts st cache_file w = Some x"
proof -
  obtain body w1 where d: "download e url cache_file (should_download_sitemap (store_lastmod st) cl opts) True w
      = (body, w1)" by (cases "download e url cache_file (should_download_sitemap (store_lastmod st) cl opts) True w")
  show ?thesis
  proof (cases "\<exists>b nodes. body = Some b \<and> b \<noteq> [] \<and> parse_sitemap e b = Some (SitemapIndex nodes)")
    case True
    then obtain b nodes where b: "body = Some b" "b \<noteq> []" "parse_sitemap e b = Some (SitemapIndex nodes)"
      by blast
    from assms(2) obtain y where y: "walk_children rec h opts nodes [] w1 = Some y"
      by (auto simp: update_sitemap2_def d b split: option.splits)
    from walk_children_mono [of rec rec', OF assms(1) y]
    have y': "walk_children rec' h opts nodes [] w1 = Some y" .
    from assms(2) y y' show ?thesis
      by (simp add: update_sitemap2_def d b)
  next
    case False
    then have "update_sitemap2 rec' e url cl h opts st cache_file w
        = update_sitemap2 rec e url cl h opts st cache_file w"
      by (auto simp: update_sitemap2_def d split: option.splits sitemap.splits)
    with assms(2) show ?thesis by simp
  qed
qed

lemma update_sitemap_call_mono:
  assumes "\<And>u l h o' w x. rec u l h o' w = Some x \<Longrightarrow> rec' u l h o' w = Some x"
    and "update_sitemap_call rec e url cl h opts w = Some x"
  shows "update_sitemap_call rec' e url cl h opts w = Some x"
proof (cases "\<exists>cf st. \<not> should_skip_sitemap url opts \<and> get_sitemap_cache_file url = Inr cf
      \<and> load_store e (snd (store_file e cf)) w = Inr st")
  case True
  then obtain cf st where c: "\<not> should_skip_sitemap url opts" "get_sitemap_cache_file url = Inr cf"
    "load_store e (snd (store_file e cf)) w = Inr st" by blast
  obtain cache_file lcf where sf: "store_file e cf = (cache_file, lcf)" by (cases "store_file e cf")
  from assms(2) obtain y where y: "update_sitemap2 rec e url cl (h @ [url]) opts st cache_file w = Some y"
    using c sf by (auto simp: update_sitemap_call_def split: option.splits)
  from update_sitemap2_mono [of rec rec', OF assms(1) y]
  have "update_sitemap2 rec' e url cl (h @ [url]) opts st cache_file w = Some y" .
  with assms(2) y c sf show ?thesis by (simp add: update_sitemap_call_def)
next
  case False
  then have "update_sitemap_call rec' e url cl h opts w = update_sitemap_call rec e url cl h opts w"
    by (auto simp: update_sitemap_call_def split: sum.splits prod.splits)
  with assms(2) show ?thesis by simp
qed

lemma update_sitemap_Suc:
  "update_sitemap depth e url cl h opts w = Some x \<Longrightarrow> update_sitemap (Suc depth) e url cl h opts w = Some x"
proof (induction depth arbitrary: url cl h opts w x)
  case 0
  have "update_sitemap_call (update_sitemap 0 e) e url cl h opts w = Some x"
    by (rule update_sitemap_call_mono [of "\<lambda>url current_lastmod how_we_got_here opts w. None"])
       (use 0 in simp_all)
  then show ?case by simp
next
  case (Suc depth)
  have "update_sitemap_call (update_sitemap (Suc depth) e) e url cl h opts w = Some x"
    by (rule update_sitemap_call_mono [of "update_sitemap depth e"])
       (use Suc in simp_all)
  then show ?case by simp
qed

lemma update_sitemap_deeper:
  "update_sitemap depth e url cl h opts w = Some x \<Longrightarrow> update_sitemap (depth + k) e url cl h opts w = Some x"
  by (induction k) (simp_all add: update_sitemap_Suc del: update_sitemap.simps)

lemma update_sitemap_returns:
  assumes "download e url (fst (store_file e cf)) (should_download_sitemap (store_lastmod st) cl opts) True w
           = (body, w0)"
    and "get_sitemap_cache_file url = Inr cf"
    and "load_store e (snd (store_file e cf)) w = Inr st"
    and "\<not> (\<exists>b n ns. body = Some b \<and> b \<noteq> [] \<and> parse_sitemap e b = Some (SitemapIndex (n # ns)))"
  shows "\<exists>x. update_sitemap depth e url cl h opts w = Some x"
proof -
  obtain cache_file lcf where sf: "store_file e cf = (cache_file, lcf)" by (cases "store_file e cf")
  have "\<exists>y. update_sitemap2 rec e url cl (h @ [url]) opts st cache_file w = Some y" for rec
  proof (cases "\<exists>b. body = Some b \<and> b \<noteq> [] \<and> parse_sitemap e b = Some (SitemapIndex [])")
    case True
    then obtain b where "body = Some b" "b \<noteq> []" "parse_sitemap e b = Some (SitemapIndex [])"
      by blast
    with assms(1) sf show ?thesis by (simp add: update_sitemap2_def)
  next
    case False
    with assms(4) have ni: "\<And>b nodes. body = Some b \<Longrightarrow> b \<noteq> [] \<Longrightarrow> parse_sitemap e b \<noteq> Some (SitemapIndex nodes)"
      by (metis list.exhaust)
    from assms(1) sf ni show ?thesis
      by (auto simp: update_sitemap2_def Let_def split: option.splits sitemap.splits sum.splits prod.splits)
  qed
  then have u2: "\<exists>y. update_sitemap2 rec e url cl (h @ [url]) opts st cache_file w = Some y" for rec .
  have "\<exists>x. update_sitemap_call rec e url cl h opts w = Some x" for rec
  proof -
    from u2 [of rec] obtain y where "update_sitemap2 rec e url cl (h @ [url]) opts st cache_file w = Some y"
      by blast
    with assms(2,3) sf show ?thesis
      by (cases y) (simp add: update_sitemap_call_def)
  qed
  then show ?thesis by (cases depth) simp_all
qed










end
